theory Spec2Isabelle
  imports Complex_Main "HOL-Library.Word"
begin

section \<open>JavaScript strings\<close>

text \<open>
  A JavaScript string is a sequence of UTF-16 code units. \<open>String.prototype.trim\<close> and
  \<open>String.prototype.includes\<close> work on code units, so the model keeps them: a string is a
  list of 16-bit words, and \<open>js\<close> embeds an ASCII literal.
\<close>

type_synonym jsstring = "16 word list"

definition js :: "string \<Rightarrow> jsstring" where
  "js s = map of_char s"

text \<open>
  The code units that \<open>trim\<close> strips: ECMAScript's WhiteSpace (TAB, VT, FF, SP, NBSP,
  ZWNBSP and the Unicode space separators) and LineTerminator (LF, CR, LS, PS).
\<close>

definition is_white_space :: "16 word \<Rightarrow> bool" where
  "is_white_space c =
     (c = 0x9 \<or> c = 0xA \<or> c = 0xB \<or> c = 0xC \<or> c = 0xD \<or> c = 0x20 \<or> c = 0xA0 \<or>
      c = 0x1680 \<or> (0x2000 \<le> c \<and> c \<le> 0x200A) \<or> c = 0x2028 \<or> c = 0x2029 \<or>
      c = 0x202F \<or> c = 0x205F \<or> c = 0x3000 \<or> c = 0xFEFF)"

definition trim :: "jsstring \<Rightarrow> jsstring" where
  "trim s = rev (dropWhile is_white_space (rev (dropWhile is_white_space s)))"

definition whitespace_only :: "jsstring \<Rightarrow> bool" where
  "whitespace_only s = list_all is_white_space s"

fun starts_with :: "jsstring \<Rightarrow> jsstring \<Rightarrow> bool" where
  "starts_with s [] = True"
| "starts_with [] (p # ps) = False"
| "starts_with (c # cs) (p # ps) = (c = p \<and> starts_with cs ps)"

text \<open>\<open>s.includes(sub)\<close>: \<open>sub\<close> occurs in \<open>s\<close> at some position.\<close>

fun includes_str :: "jsstring \<Rightarrow> jsstring \<Rightarrow> bool" where
  "includes_str [] sub = (sub = [])"
| "includes_str (c # cs) sub = (starts_with (c # cs) sub \<or> includes_str cs sub)"

text \<open>
  \<open>Number.prototype.toString\<close> on a non-negative integer (a value of \<open>Date.now()\<close>): its
  decimal digits.
\<close>

fun toString :: "nat \<Rightarrow> jsstring" where
  "toString n =
     (if n < 10 then [of_nat (48 + n)]
      else toString (n div 10) @ [of_nat (48 + n mod 10)])"

declare toString.simps [simp del]

text \<open>
  \<open>xs.slice(start)\<close>: a negative \<open>start\<close> counts from the end, and both directions are
  clamped to the array.
\<close>

definition slice :: "int \<Rightarrow> 'a list \<Rightarrow> 'a list" where
  "slice start xs =
     (let len = int (length xs);
          k = (if start < 0 then max (len + start) 0 else min start len)
      in drop (nat k) xs)"

section \<open>The string constants of the source\<close>

definition WELCOME :: jsstring where
  "WELCOME =
    js ''**Welcome to Your AI Medical Assistant!** '' @ [0xD83E, 0xDD17, 0xA] @
    [0xA] @
    js ''I'm here to help you with health-related questions and provide general medical guidance. Here's what I can assist you with:'' @ [0xA] @
    [0xA] @
    js ''**'' @ [0xD83E, 0xDE7A] @ js '' What I Can Help With:**'' @ [0xA] @
    [0x2022] @ js '' General health information and wellness tips'' @ [0xA] @
    [0x2022] @ js '' Symptom guidance and when to seek care'' @ [0xA] @
    [0x2022] @ js '' Nutrition and exercise recommendations  '' @ [0xA] @
    [0x2022] @ js '' Mental health and stress management'' @ [0xA] @
    [0x2022] @ js '' Medication information (general)'' @ [0xA] @
    [0x2022] @ js '' Preventive care suggestions'' @ [0xA] @
    [0xA] @
    js ''**'' @ [0x26A0, 0xFE0F] @ js '' Important Reminder:**'' @ [0xA] @
    js ''I provide general information only and cannot replace professional medical advice. Always consult healthcare professionals for personalized care.'' @ [0xA] @
    [0xA] @
    js ''**'' @ [0xD83D, 0xDEA8] @ js '' For Emergencies:** Call your local emergency services immediately.'' @ [0xA] @
    [0xA] @
    js ''How can I help you today? Feel free to ask a question or use the quick action buttons below! '' @ [0xD83D, 0xDC99]"

definition WELCOME_BACK :: jsstring where
  "WELCOME_BACK =
    js ''**Welcome Back!** '' @ [0xD83E, 0xDD17, 0xA] @
    [0xA] @
    js ''I'm your AI medical assistant, ready to help with your health questions. How can I assist you today?''"

definition MEDICAL_SYSTEM_PROMPT :: jsstring where
  "MEDICAL_SYSTEM_PROMPT =
    js ''You are a compassionate and knowledgeable medical AI assistant. Your responses should be visually appealing, well-structured, and easy to read while providing helpful health information.'' @ [0xA] @
    [0xA] @
    js ''FORMATTING GUIDELINES:'' @ [0xA] @
    js ''- Use emojis strategically to make responses more engaging and visual'' @ [0xA] @
    js ''- Structure information with clear headings and bullet points'' @ [0xA] @
    js ''- Use numbered lists for step-by-step instructions'' @ [0xA] @
    js ''- Keep formatting clean and consistent - avoid extra spaces or broken lines'' @ [0xA] @
    js ''- Make important information stand out with **bold text**'' @ [0xA] @
    js ''- Use warm, empathetic language with appropriate medical terminology'' @ [0xA] @
    js ''- Ensure proper spacing between sections'' @ [0xA] @
    [0xA] @
    js ''RESPONSE STRUCTURE:'' @ [0xA] @
    js ''1. **Empathetic Opening** '' @ [0xD83E, 0xDD17] @ js '' - Acknowledge their concern with care'' @ [0xA] @
    js ''2. **Main Information** '' @ [0xD83D, 0xDCCB] @ js '' - Provide helpful, accurate medical information'' @ [0xA] @
    js ''3. **Actionable Steps** '' @ [0x2705] @ js '' - Clear, numbered recommendations'' @ [0xA] @
    js ''4. **When to Seek Help** '' @ [0xD83D, 0xDEA8] @ js '' - Clear guidance on medical consultation'' @ [0xA] @
    js ''5. **Supportive Closing** '' @ [0xD83D, 0xDC99] @ js '' - Encouraging and caring conclusion'' @ [0xA] @
    [0xA] @
    js ''VISUAL ELEMENTS TO USE:'' @ [0xA] @
    js ''- '' @ [0xD83E, 0xDE7A] @ js '' for medical advice'' @ [0xA] @
    js ''- '' @ [0xD83D, 0xDC8A] @ js '' for medication information'' @ [0xA] @
    js ''- '' @ [0xD83C, 0xDFE5] @ js '' for hospital/doctor visits'' @ [0xA] @
    js ''- '' @ [0x26A0, 0xFE0F] @ js '' for warnings'' @ [0xA] @
    js ''- '' @ [0x2705] @ js '' for recommendations'' @ [0xA] @
    js ''- '' @ [0xD83C, 0xDF21, 0xFE0F] @ js '' for fever/temperature'' @ [0xA] @
    js ''- '' @ [0xD83D, 0xDCA7] @ js '' for hydration'' @ [0xA] @
    js ''- '' @ [0xD83D, 0xDE34] @ js '' for rest'' @ [0xA] @
    js ''- '' @ [0xD83C, 0xDF4E] @ js '' for nutrition'' @ [0xA] @
    js ''- '' @ [0xD83C, 0xDFC3, 0x200D, 0x2642, 0xFE0F] @ js '' for exercise'' @ [0xA] @
    js ''- '' @ [0xD83E, 0xDDE0] @ js '' for mental health'' @ [0xA] @
    js ''- '' @ [0x2764, 0xFE0F] @ js '' for heart health'' @ [0xA] @
    js ''- '' @ [0xD83D, 0xDCDE] @ js '' for emergency contacts'' @ [0xA] @
    [0xA] @
    js ''MEDICAL GUIDELINES:'' @ [0xA] @
    js ''- Provide evidence-based health information'' @ [0xA] @
    js ''- Always emphasize this is general information only'' @ [0xA] @
    js ''- Recommend professional medical consultation for serious concerns'' @ [0xA] @
    js ''- Be empathetic and supportive'' @ [0xA] @
    js ''- Ask clarifying questions when helpful'' @ [0xA] @
    js ''- Suggest emergency care when appropriate'' @ [0xA] @
    js ''- Include appropriate medical disclaimers'' @ [0xA] @
    js ''- Never provide specific diagnoses'' @ [0xA] @
    [0xA] @
    js ''FORMATTING RULES:'' @ [0xA] @
    js ''- Use single line breaks within sections, double line breaks between sections'' @ [0xA] @
    js ''- For bullet points, use simple '' @ [0x22, 0x2022] @ js '' '' @ [0x22] @ js '' format (bullet + space)'' @ [0xA] @
    js ''- For numbered lists, use '' @ [0x22] @ js ''1. '' @ [0x22] @ js '' format (number + period + space)'' @ [0xA] @
    js ''- Keep bold text clean: **Text** (no extra spaces inside)'' @ [0xA] @
    js ''- Place emojis at the start of headings or sections for visual appeal'' @ [0xA] @
    [0xA] @
    js ''TONE: Caring, professional, informative, and visually engaging while maintaining medical accuracy and safety.''"

definition APOLOGY :: jsstring where
  "APOLOGY =
    js ''I apologize, but I'm having trouble responding right now. Please try again in a moment.''"

section \<open>The chat component (MedicalChat.tsx)\<close>

subsection \<open>Data\<close>

datatype role = user | assistant

record Message =
  msg_id :: jsstring
  role :: role
  content :: jsstring
  timestamp :: nat

text \<open>An entry of the history sent to the endpoint: a message without id and timestamp.\<close>

record HistoryEntry =
  entry_role :: role
  entry_content :: jsstring

text \<open>
  The component's state: the three \<open>useState\<close> cells. A state update is applied at once;
  \<open>messages\<close> and \<open>isLoading\<close> read by \<open>sendMessage\<close> are those of the state it is
  called in.
\<close>

record ChatState =
  messages :: "Message list"
  inputMessage :: jsstring
  isLoading :: bool

definition initial_state :: "nat \<Rightarrow> ChatState" where
  "initial_state new_date =
     \<lparr>messages = [\<lparr>msg_id = js ''1'', role = assistant, content = WELCOME,
                    timestamp = new_date\<rparr>],
      inputMessage = [],
      isLoading = False\<rparr>"

text \<open>The JSON body of the request, and the \<open>fetch\<close> call that carries it.\<close>

record ChatRequestBody =
  message :: jsstring
  conversationHistory :: "HistoryEntry list"

record FetchRequest =
  url :: jsstring
  fetch_method :: jsstring
  content_type :: jsstring
  request_body :: ChatRequestBody

text \<open>
  What the endpoint answers: a status and a JSON body \<open>{ message, usage? }\<close>, the shape
  every \<open>res.json\<close> of the handler below produces.
\<close>

record Usage =
  prompt_tokens :: nat
  completion_tokens :: nat
  total_tokens :: nat

record HttpResponse =
  status :: nat
  res_message :: jsstring
  res_usage :: "Usage option"

definition ok :: "HttpResponse \<Rightarrow> bool" where
  "ok r = (200 \<le> status r \<and> status r \<le> 299)"

text \<open>
  How the awaited part of \<open>sendMessage\<close> can end: \<open>fetch\<close> rejects, \<open>response.json()\<close>
  rejects (the body is not JSON), or a response with a JSON body arrives.
\<close>

datatype FetchOutcome = FetchRejected | JsonRejected | Response HttpResponse

subsection \<open>sendMessage\<close>

text \<open>
  \<open>sendMessage\<close> is called without argument by the Enter key, with a string by the quick
  actions, and with the click event by the send button (\<open>onClick={sendMessage}\<close>).
\<close>

datatype SendArgument = NoArgument | TextArgument jsstring | ClickEvent

datatype TextToSend = Text jsstring | EventObject

text \<open>
  \<open>messageText || inputMessage\<close>: an absent or empty argument gives way to the input box;
  an event object is truthy and stays.
\<close>

definition textToSend :: "SendArgument \<Rightarrow> jsstring \<Rightarrow> TextToSend" where
  "textToSend messageText input =
     (case messageText of
        NoArgument \<Rightarrow> Text input
      | TextArgument t \<Rightarrow> (if t = [] then Text input else Text t)
      | ClickEvent \<Rightarrow> EventObject)"

definition history_entry :: "Message \<Rightarrow> HistoryEntry" where
  "history_entry msg = \<lparr>entry_role = role msg, entry_content = content msg\<rparr>"

text \<open>
  The part of \<open>sendMessage\<close> up to the \<open>await fetch\<close>. It returns at once (\<open>Returned\<close>),
  throws a TypeError because an event object has no \<open>trim\<close> (\<open>Threw\<close>), or updates the
  state and issues one request (\<open>Fetching\<close>). \<open>date_now\<close> and \<open>new_date\<close> are the two
  clock readings \<open>Date.now()\<close> and \<open>new Date()\<close>.
\<close>

datatype SendStart = Returned | Threw | Fetching ChatState FetchRequest

definition sendMessage_start :: "nat \<Rightarrow> nat \<Rightarrow> SendArgument \<Rightarrow> ChatState \<Rightarrow> SendStart" where
  "sendMessage_start date_now new_date messageText st =
     (case textToSend messageText (inputMessage st) of
        EventObject \<Rightarrow> Threw
      | Text t \<Rightarrow>
          if trim t = [] \<or> isLoading st then Returned
          else
            let userMessage = \<lparr>msg_id = toString date_now, role = user, content = t,
                               timestamp = new_date\<rparr>;
                history = map history_entry (slice (- 10) (messages st))
            in Fetching
                 (st\<lparr>messages := messages st @ [userMessage],
                     inputMessage := [],
                     isLoading := True\<rparr>)
                 \<lparr>url = js ''/api/chat/medical'',
                  fetch_method = js ''POST'',
                  content_type = js ''application/json'',
                  request_body = \<lparr>message = t, conversationHistory = history\<rparr>\<rparr>)"

text \<open>
  The \<open>try\<close> block after the request was issued: the text of the reply (\<open>data.message\<close>),
  or the error that reaches the \<open>catch\<close>.
\<close>

datatype ChatError = FetchFailed | BodyNotJson | NotOk jsstring

definition await_reply :: "FetchOutcome \<Rightarrow> ChatError + jsstring" where
  "await_reply outcome =
     (case outcome of
        FetchRejected \<Rightarrow> Inl FetchFailed
      | JsonRejected \<Rightarrow> Inl BodyNotJson
      | Response r \<Rightarrow>
          if \<not> ok r
          then Inl (NotOk (if res_message r = [] then js ''Failed to get response''
                           else res_message r))
          else Inr (res_message r))"

text \<open>
  The rest of \<open>sendMessage\<close>, run when the awaited call has ended: \<open>try\<close> or \<open>catch\<close> appends
  one message to whatever the conversation is by then (\<open>prev => [...prev, m]\<close>), and
  \<open>finally\<close> clears the flag.
\<close>

definition sendMessage_finish :: "nat \<Rightarrow> nat \<Rightarrow> FetchOutcome \<Rightarrow> ChatState \<Rightarrow> ChatState" where
  "sendMessage_finish date_now new_date outcome st =
     (let reply =
            (case await_reply outcome of
               Inr text \<Rightarrow> \<lparr>msg_id = toString (date_now + 1), role = assistant,
                            content = text, timestamp = new_date\<rparr>
             | Inl error \<Rightarrow> \<lparr>msg_id = toString (date_now + 1), role = assistant,
                             content = APOLOGY, timestamp = new_date\<rparr>)
      in st\<lparr>messages := messages st @ [reply], isLoading := False\<rparr>)"

text \<open>
  A whole call with nothing else happening in between; \<open>fetch\<close> stands for the network and
  the endpoint, and is applied to the one request of an accepted send.
\<close>

definition sendMessage ::
  "nat \<Rightarrow> nat \<Rightarrow> nat \<Rightarrow> nat \<Rightarrow> (FetchRequest \<Rightarrow> FetchOutcome) \<Rightarrow> SendArgument \<Rightarrow> ChatState \<Rightarrow> ChatState"
where
  "sendMessage date_now new_date date_now' new_date' fetch messageText st =
     (case sendMessage_start date_now new_date messageText st of
        Fetching st' req \<Rightarrow> sendMessage_finish date_now' new_date' (fetch req) st'
      | Returned \<Rightarrow> st
      | Threw \<Rightarrow> st)"

subsection \<open>clearChat\<close>

definition clearChat :: "nat \<Rightarrow> ChatState \<Rightarrow> ChatState" where
  "clearChat new_date st =
     st\<lparr>messages := [\<lparr>msg_id = js ''1'', role = assistant, content = WELCOME_BACK,
                       timestamp = new_date\<rparr>]\<rparr>"

section \<open>The endpoint (the API route's handler)\<close>

subsection \<open>Values of the request body\<close>

text \<open>
  \<open>req.body\<close> is whatever the body parser produced (\<open>any\<close>), so the handler is modelled
  on JavaScript values. A number only matters through being zero or not, and is kept as
  an integer. The fields of an object are in the order of the JSON text; a later
  duplicate key wins, as in \<open>JSON.parse\<close>.
\<close>

datatype jsval =
    JsUndefined
  | JsNull
  | JsBoolean bool
  | JsNumber int
  | JsString jsstring
  | JsArray "jsval list"
  | JsObject "(jsstring \<times> jsval) list"

text \<open>
  Reading a property (\<open>v.k\<close>, or a destructuring pattern): \<open>None\<close> is the TypeError that
  \<open>undefined\<close> and \<open>null\<close> raise. It is used for the keys \<open>message\<close>,
  \<open>conversationHistory\<close>, \<open>role\<close> and \<open>content\<close> only, which no primitive or array has.
\<close>

fun property :: "jsval \<Rightarrow> jsstring \<Rightarrow> jsval option" where
  "property JsUndefined k = None"
| "property JsNull k = None"
| "property (JsObject props) k =
     Some (case map_of (rev props) k of Some v \<Rightarrow> v | None \<Rightarrow> JsUndefined)"
| "property v k = Some JsUndefined"

fun truthy :: "jsval \<Rightarrow> bool" where
  "truthy JsUndefined = False"
| "truthy JsNull = False"
| "truthy (JsBoolean b) = b"
| "truthy (JsNumber n) = (n \<noteq> 0)"
| "truthy (JsString s) = (s \<noteq> [])"
| "truthy (JsArray xs) = True"
| "truthy (JsObject props) = True"

subsection \<open>The remote completion API\<close>

record PromptMessage =
  prompt_role :: jsval
  prompt_content :: jsval

record CompletionRequest =
  model :: jsstring
  request_messages :: "PromptMessage list"
  max_tokens :: nat
  temperature :: rat
  presence_penalty :: rat
  frequency_penalty :: rat

datatype ChatCompletionMessage = ChatCompletionMessage (message_content: "jsstring option")

datatype Choice = Choice (choice_message: "ChatCompletionMessage option")

record ChatCompletion =
  choices :: "Choice list"
  usage :: "Usage option"

text \<open>
  What a \<open>throw\<close> or a rejected promise carries: a TypeError of the engine (whose message
  names neither \<open>API key\<close> nor \<open>quota\<close>), another \<open>Error\<close> with its message, or a value
  that is no \<open>Error\<close>.
\<close>

datatype Thrown = TypeError | Error jsstring | NotAnError

datatype RemoteResult = Resolved ChatCompletion | Rejected Thrown

subsection \<open>The handler\<close>

record ApiRequest =
  req_method :: jsstring
  req_body :: jsval

text \<open>What the handler does besides answering, in order.\<close>

datatype Effect = GetServerSession | CreateCompletion CompletionRequest | ConsoleError Thrown

text \<open>The handler answers (\<open>Sent\<close>), or an exception leaves it (\<open>Unhandled\<close>).\<close>

datatype HandlerResult = Sent HttpResponse | Unhandled Thrown

text \<open>\<open>res.status(code).json({ message: text })\<close>\<close>

definition json_response :: "nat \<Rightarrow> jsstring \<Rightarrow> HttpResponse" where
  "json_response code text = \<lparr>status = code, res_message = text, res_usage = None\<rparr>"

text \<open>
  \<open>const { message, conversationHistory = [] } = req.body\<close>: the default replaces
  \<open>undefined\<close> only.
\<close>

definition destructure :: "jsval \<Rightarrow> (jsval \<times> jsval) option" where
  "destructure body =
     (case property body (js ''message'') of
        None \<Rightarrow> None
      | Some message' \<Rightarrow>
          (case property body (js ''conversationHistory'') of
             None \<Rightarrow> None
           | Some history \<Rightarrow>
               Some (message', if history = JsUndefined then JsArray [] else history)))"

text \<open>\<open>!process.env.OPENAI_API_KEY\<close>: the variable is unset or empty.\<close>

definition key_missing :: "jsstring option \<Rightarrow> bool" where
  "key_missing api_key = (case api_key of None \<Rightarrow> True | Some k \<Rightarrow> k = [])"

text \<open>
  \<open>conversationHistory.map(msg => ({ role: msg.role, content: msg.content }))\<close> on the
  elements of an array; \<open>None\<close> when an element is \<open>null\<close> or \<open>undefined\<close>.
\<close>

fun map_history :: "jsval list \<Rightarrow> PromptMessage list option" where
  "map_history [] = Some []"
| "map_history (msg # rest) =
     (case property msg (js ''role'') of
        None \<Rightarrow> None
      | Some r \<Rightarrow>
          (case property msg (js ''content'') of
             None \<Rightarrow> None
           | Some c \<Rightarrow>
               (case map_history rest of
                  None \<Rightarrow> None
                | Some ps \<Rightarrow> Some (\<lparr>prompt_role = r, prompt_content = c\<rparr> # ps))))"

definition system_message :: PromptMessage where
  "system_message =
     \<lparr>prompt_role = JsString (js ''system''), prompt_content = JsString MEDICAL_SYSTEM_PROMPT\<rparr>"

definition user_message :: "jsval \<Rightarrow> PromptMessage" where
  "user_message message' = \<lparr>prompt_role = JsString (js ''user''), prompt_content = message'\<rparr>"

text \<open>
  The array \<open>messages\<close> of the \<open>try\<close> block. Only an array has a \<open>map\<close> to call; on any other
  value the call is a TypeError.
\<close>

definition build_messages :: "jsval \<Rightarrow> jsval \<Rightarrow> Thrown + PromptMessage list" where
  "build_messages message' history =
     (case history of
        JsArray xs \<Rightarrow>
          (case map_history xs of
             None \<Rightarrow> Inl TypeError
           | Some entries \<Rightarrow> Inr (system_message # entries @ [user_message message']))
      | _ \<Rightarrow> Inl TypeError)"

definition completion_request :: "PromptMessage list \<Rightarrow> CompletionRequest" where
  "completion_request msgs =
     \<lparr>model = js ''gpt-4o'',
      request_messages = msgs,
      max_tokens = 1000,
      temperature = 7 / 10,
      presence_penalty = 1 / 10,
      frequency_penalty = 1 / 10\<rparr>"

text \<open>\<open>completion.choices[0]?.message?.content\<close>\<close>

definition aiResponse :: "ChatCompletion \<Rightarrow> jsstring option" where
  "aiResponse completion =
     (case choices completion of
        [] \<Rightarrow> None
      | first # _ \<Rightarrow>
          (case choice_message first of
             None \<Rightarrow> None
           | Some m \<Rightarrow> message_content m))"

text \<open>
  The \<open>try\<close> block: the response it sends, or what it throws, with the calls it made.
  \<open>create\<close> stands for \<open>openai.chat.completions.create\<close>.
\<close>

definition try_block ::
  "(CompletionRequest \<Rightarrow> RemoteResult) \<Rightarrow> jsval \<Rightarrow> jsval \<Rightarrow> (Thrown + HttpResponse) \<times> Effect list"
where
  "try_block create message' history =
     (case build_messages message' history of
        Inl e \<Rightarrow> (Inl e, [])
      | Inr msgs \<Rightarrow>
          (let request = completion_request msgs in
           case create request of
             Rejected e \<Rightarrow> (Inl e, [CreateCompletion request])
           | Resolved completion \<Rightarrow>
               (case aiResponse completion of
                  None \<Rightarrow>
                    (Inl (Error (js ''No response from OpenAI'')), [CreateCompletion request])
                | Some text \<Rightarrow>
                    if text = []
                    then (Inl (Error (js ''No response from OpenAI'')),
                          [CreateCompletion request])
                    else (Inr \<lparr>status = 200, res_message = text,
                               res_usage = usage completion\<rparr>,
                          [CreateCompletion request]))))"

definition catch_block :: "Thrown \<Rightarrow> HttpResponse" where
  "catch_block error =
     (case error of
        Error m \<Rightarrow>
          if includes_str m (js ''API key'')
          then json_response 401 (js ''Invalid OpenAI API key'')
          else if includes_str m (js ''quota'')
          then json_response 429 (js ''API quota exceeded'')
          else json_response 500 (js ''Failed to get AI response. Please try again later.'')
      | TypeError \<Rightarrow>
          json_response 500 (js ''Failed to get AI response. Please try again later.'')
      | NotAnError \<Rightarrow>
          json_response 500 (js ''Failed to get AI response. Please try again later.''))"

text \<open>
  \<open>session\<close> is the result of \<open>getServerSession\<close> (\<open>None\<close> for \<open>null\<close>) and \<open>api_key\<close> the
  environment variable \<open>OPENAI_API_KEY\<close>.
\<close>

definition handler ::
  "(CompletionRequest \<Rightarrow> RemoteResult) \<Rightarrow> jsstring option \<Rightarrow> 's option \<Rightarrow> ApiRequest
     \<Rightarrow> HandlerResult \<times> Effect list"
where
  "handler create api_key session req =
     (if req_method req \<noteq> js ''POST''
      then (Sent (json_response 405 (js ''Method not allowed'')), [])
      else
        case session of
          None \<Rightarrow> (Sent (json_response 401 (js ''Unauthorized'')), [GetServerSession])
        | Some s \<Rightarrow>
            (case destructure (req_body req) of
               None \<Rightarrow> (Unhandled TypeError, [GetServerSession])
             | Some (message', conversationHistory') \<Rightarrow>
                 if \<not> truthy message'
                 then (Sent (json_response 400 (js ''Message is required'')),
                       [GetServerSession])
                 else if key_missing api_key
                 then (Sent (json_response 500 (js ''OpenAI API key not configured'')),
                       [GetServerSession])
                 else
                   (case try_block create message' conversationHistory' of
                      (Inr response, effects) \<Rightarrow> (Sent response, GetServerSession # effects)
                    | (Inl error, effects) \<Rightarrow>
                        (Sent (catch_block error),
                         GetServerSession # effects @ [ConsoleError error]))))"

text \<open>
  The request body as the component's \<open>JSON.stringify\<close> writes it and the body parser
  reads it back.
\<close>

definition role_json :: "role \<Rightarrow> jsval" where
  "role_json r = (case r of user \<Rightarrow> JsString (js ''user'') | assistant \<Rightarrow> JsString (js ''assistant''))"

definition entry_json :: "HistoryEntry \<Rightarrow> jsval" where
  "entry_json e =
     JsObject [(js ''role'', role_json (entry_role e)),
               (js ''content'', JsString (entry_content e))]"

definition body_json :: "ChatRequestBody \<Rightarrow> jsval" where
  "body_json b =
     JsObject [(js ''message'', JsString (message b)),
               (js ''conversationHistory'', JsArray (map entry_json (conversationHistory b)))]"

definition prompt_entry :: "HistoryEntry \<Rightarrow> PromptMessage" where
  "prompt_entry e =
     \<lparr>prompt_role = role_json (entry_role e), prompt_content = JsString (entry_content e)\<rparr>"

section \<open>Reading a call's result, and sample conversations\<close>

text \<open>The request that a call of \<open>sendMessage\<close> issued, if it issued one.\<close>

definition issued_request :: "SendStart \<Rightarrow> FetchRequest option" where
  "issued_request r = (case r of Fetching st req \<Rightarrow> Some req | Returned \<Rightarrow> None | Threw \<Rightarrow> None)"

text \<open>The history in that request.\<close>

definition issued_history :: "SendStart \<Rightarrow> HistoryEntry list option" where
  "issued_history r =
     (case issued_request r of
        None \<Rightarrow> None
      | Some req \<Rightarrow> Some (conversationHistory (request_body req)))"

text \<open>
  The awaited call failed: whatever makes the \<open>try\<close> block of \<open>sendMessage\<close> throw.
\<close>

definition remote_call_failed :: "FetchOutcome \<Rightarrow> bool" where
  "remote_call_failed outcome =
     (case outcome of
        FetchRejected \<Rightarrow> True
      | JsonRejected \<Rightarrow> True
      | Response r \<Rightarrow> \<not> ok r)"

text \<open>The completion requests among the effects of the handler.\<close>

fun remote_calls :: "Effect list \<Rightarrow> CompletionRequest list" where
  "remote_calls [] = []"
| "remote_calls (CreateCompletion r # es) = r # remote_calls es"
| "remote_calls (e # es) = remote_calls es"

text \<open>A conversation of \<open>n\<close> turns, assistant and user alternating, numbered from 0.\<close>

definition sample_turn :: "nat \<Rightarrow> Message" where
  "sample_turn i =
     \<lparr>msg_id = toString i, role = (if even i then assistant else user),
      content = toString i, timestamp = i\<rparr>"

primrec sample_turns :: "nat \<Rightarrow> Message list" where
  "sample_turns 0 = []"
| "sample_turns (Suc n) = sample_turns n @ [sample_turn n]"

definition sample_state :: "nat \<Rightarrow> jsstring \<Rightarrow> bool \<Rightarrow> ChatState" where
  "sample_state n input pending =
     \<lparr>messages = sample_turns n, inputMessage = input, isLoading = pending\<rparr>"

text \<open>Sample requests and remote APIs.\<close>

definition post_request :: "jsval \<Rightarrow> ApiRequest" where
  "post_request body = \<lparr>req_method = js ''POST'', req_body = body\<rparr>"

definition headache_body :: jsval where
  "headache_body = JsObject [(js ''message'', JsString (js ''I have a headache''))]"

definition remote_answers :: "jsstring \<Rightarrow> CompletionRequest \<Rightarrow> RemoteResult" where
  "remote_answers text request =
     Resolved \<lparr>choices = [Choice (Some (ChatCompletionMessage (Some text)))], usage = None\<rparr>"

definition remote_rejects :: "Thrown \<Rightarrow> CompletionRequest \<Rightarrow> RemoteResult" where
  "remote_rejects e request = Rejected e"

text \<open>
  A remote API whose first choice has an empty text and whose second choice has the given
  one.
\<close>

definition remote_first_choice_empty :: "jsstring \<Rightarrow> CompletionRequest \<Rightarrow> RemoteResult" where
  "remote_first_choice_empty second request =
     Resolved \<lparr>choices = [Choice (Some (ChatCompletionMessage (Some []))),
                          Choice (Some (ChatCompletionMessage (Some second)))],
               usage = None\<rparr>"

section \<open>Properties of the string operations\<close>

lemma dropWhile_all_iff: "(\<forall>x\<in>set (dropWhile P xs). P x) \<longleftrightarrow> (\<forall>x\<in>set xs. P x)"
proof
  assume a: "\<forall>x\<in>set (dropWhile P xs). P x"
  have "dropWhile P xs = []"
  proof (rule ccontr)
    assume n: "dropWhile P xs \<noteq> []"
    then have "\<not> P (hd (dropWhile P xs))" by (rule hd_dropWhile)
    moreover have "hd (dropWhile P xs) \<in> set (dropWhile P xs)" using n by simp
    ultimately show False using a by blast
  qed
  then show "\<forall>x\<in>set xs. P x" by (simp add: dropWhile_eq_Nil_conv)
next
  assume "\<forall>x\<in>set xs. P x"
  then show "\<forall>x\<in>set (dropWhile P xs). P x" by (auto dest: set_dropWhileD)
qed

lemma trim_empty_iff: "trim s = [] \<longleftrightarrow> whitespace_only s"
  by (simp add: trim_def whitespace_only_def list_all_iff dropWhile_eq_Nil_conv dropWhile_all_iff)

lemma whitespace_only_Nil: "whitespace_only []"
  by (simp add: whitespace_only_def)

lemma slice_last_ten: "slice (- 10) xs = drop (length xs - 10) xs"
  by (simp add: slice_def Let_def max_def nat_diff_distrib')

lemma length_sample_turns: "length (sample_turns n) = n"
  by (induction n) simp_all

section \<open>Properties of the chat component\<close>

lemma empty_argument_reads_input_box:
  "textToSend (TextArgument []) input = textToSend NoArgument input"
  by (simp add: textToSend_def)

lemma click_event_throws:
  "sendMessage_start date_now new_date ClickEvent st = Threw"
  by (simp add: sendMessage_start_def textToSend_def)

lemma sendMessage_start_accepted:
  assumes "textToSend messageText (inputMessage st) = Text t"
      and "\<not> whitespace_only t" and "\<not> isLoading st"
  shows "sendMessage_start date_now new_date messageText st =
           Fetching
             (st\<lparr>messages := messages st @
                    [\<lparr>msg_id = toString date_now, role = user, content = t,
                      timestamp = new_date\<rparr>],
                  inputMessage := [], isLoading := True\<rparr>)
             \<lparr>url = js ''/api/chat/medical'', fetch_method = js ''POST'',
              content_type = js ''application/json'',
              request_body =
                \<lparr>message = t,
                 conversationHistory =
                   map history_entry (drop (length (messages st) - 10) (messages st))\<rparr>\<rparr>"
  using assms by (simp add: sendMessage_start_def trim_empty_iff slice_last_ten)

lemma sendMessage_start_FetchingD:
  assumes "sendMessage_start date_now new_date messageText st = Fetching st' req"
  obtains t where "textToSend messageText (inputMessage st) = Text t"
    and "\<not> whitespace_only t" and "\<not> isLoading st"
  using assms
  by (auto simp: sendMessage_start_def trim_empty_iff split: TextToSend.splits if_splits)

text \<open>
  C1. The history that an accepted send puts into its request is the last
  \<open>min 10 n\<close> of the \<open>n\<close> messages the conversation held before the new user message was
  appended, in their order, each reduced to its role and its content (id and timestamp are
  not part of an entry); it never has more than 10 entries.
\<close>

theorem context_window_last_ten:
  assumes "sendMessage_start date_now new_date messageText st = Fetching st' req"
  shows "conversationHistory (request_body req)
           = map (\<lambda>msg. \<lparr>entry_role = role msg, entry_content = content msg\<rparr>)
               (drop (length (messages st) - 10) (messages st))
       \<and> map entry_role (conversationHistory (request_body req))
           = map role (drop (length (messages st) - 10) (messages st))
       \<and> map entry_content (conversationHistory (request_body req))
           = map content (drop (length (messages st) - 10) (messages st))
       \<and> length (conversationHistory (request_body req)) = min 10 (length (messages st))
       \<and> length (conversationHistory (request_body req)) \<le> 10
       \<and> butlast (messages st') = messages st
       \<and> role (last (messages st')) = user"
proof -
  from assms obtain t where t: "textToSend messageText (inputMessage st) = Text t"
    "\<not> whitespace_only t" "\<not> isLoading st"
    by (rule sendMessage_start_FetchingD)
  have h: "map history_entry xs
             = map (\<lambda>msg. \<lparr>entry_role = role msg, entry_content = content msg\<rparr>) xs" for xs
    by (simp add: history_entry_def)
  from sendMessage_start_accepted [OF t, of date_now new_date] assms
  have "st' = st\<lparr>messages := messages st @
                    [\<lparr>msg_id = toString date_now, role = user, content = t,
                      timestamp = new_date\<rparr>],
                  inputMessage := [], isLoading := True\<rparr>"
    and "conversationHistory (request_body req)
           = map history_entry (drop (length (messages st) - 10) (messages st))"
    by auto
  then show ?thesis by (simp add: h min_def o_def)
qed

lemma sample_state_sel:
  "messages (sample_state n input pending) = sample_turns n"
  "inputMessage (sample_state n input pending) = input"
  "isLoading (sample_state n input pending) = pending"
  by (simp_all add: sample_state_def)

lemma not_blank_hello: "\<not> whitespace_only (js ''hello'')"
  by (simp add: whitespace_only_def js_def is_white_space_def)

lemma sample_turns_numeral:
  "sample_turns (numeral k) = sample_turns (pred_numeral k) @ [sample_turn (pred_numeral k)]"
  "sample_turns 1 = [sample_turn 0]"
  by (simp_all add: numeral_eq_Suc)

lemma toString_small:
  "toString 5 = js ''5''" "toString 6 = js ''6''" "toString 7 = js ''7''"
  "toString 8 = js ''8''" "toString 9 = js ''9''" "toString 10 = js ''10''"
  "toString 11 = js ''11''" "toString 12 = js ''12''" "toString 13 = js ''13''"
  "toString 14 = js ''14''"
  by (simp_all add: toString.simps js_def)

lemma sample_turns_last_ten:
  "drop 5 (sample_turns 15)
     = [\<lparr>msg_id = js ''5'', role = user, content = js ''5'', timestamp = 5\<rparr>,
        \<lparr>msg_id = js ''6'', role = assistant, content = js ''6'', timestamp = 6\<rparr>,
        \<lparr>msg_id = js ''7'', role = user, content = js ''7'', timestamp = 7\<rparr>,
        \<lparr>msg_id = js ''8'', role = assistant, content = js ''8'', timestamp = 8\<rparr>,
        \<lparr>msg_id = js ''9'', role = user, content = js ''9'', timestamp = 9\<rparr>,
        \<lparr>msg_id = js ''10'', role = assistant, content = js ''10'', timestamp = 10\<rparr>,
        \<lparr>msg_id = js ''11'', role = user, content = js ''11'', timestamp = 11\<rparr>,
        \<lparr>msg_id = js ''12'', role = assistant, content = js ''12'', timestamp = 12\<rparr>,
        \<lparr>msg_id = js ''13'', role = user, content = js ''13'', timestamp = 13\<rparr>,
        \<lparr>msg_id = js ''14'', role = assistant, content = js ''14'', timestamp = 14\<rparr>]"
  by (simp add: sample_turns_numeral sample_turn_def toString_small)

theorem context_window_last_ten_witness:
  "issued_history
     (sendMessage_start 1700000000000 1700000000001 (TextArgument (js ''hello''))
        (sample_state 15 [] False))
     = Some [\<lparr>entry_role = user, entry_content = js ''5''\<rparr>,
             \<lparr>entry_role = assistant, entry_content = js ''6''\<rparr>,
             \<lparr>entry_role = user, entry_content = js ''7''\<rparr>,
             \<lparr>entry_role = assistant, entry_content = js ''8''\<rparr>,
             \<lparr>entry_role = user, entry_content = js ''9''\<rparr>,
             \<lparr>entry_role = assistant, entry_content = js ''10''\<rparr>,
             \<lparr>entry_role = user, entry_content = js ''11''\<rparr>,
             \<lparr>entry_role = assistant, entry_content = js ''12''\<rparr>,
             \<lparr>entry_role = user, entry_content = js ''13''\<rparr>,
             \<lparr>entry_role = assistant, entry_content = js ''14''\<rparr>]
   \<and> length (messages (sample_state 15 [] False)) = 15"
proof -
  have t: "textToSend (TextArgument (js ''hello'')) (inputMessage (sample_state 15 [] False))
             = Text (js ''hello'')"
    by (simp add: textToSend_def js_def sample_state_sel)
  have l: "\<not> isLoading (sample_state 15 [] False)"
    by (simp add: sample_state_sel)
  note h = sendMessage_start_accepted [OF t not_blank_hello l, of 1700000000000 1700000000001]
  from context_window_last_ten [OF h, THEN conjunct1] show ?thesis
    by (simp add: h issued_history_def issued_request_def sample_state_sel length_sample_turns
          sample_turns_last_ten)
qed

lemma sendMessage_finish_appends:
  "messages (sendMessage_finish date_now new_date outcome st) =
     messages st @
       [\<lparr>msg_id = toString (date_now + 1), role = assistant,
         content = (case await_reply outcome of Inr text \<Rightarrow> text | Inl e \<Rightarrow> APOLOGY),
         timestamp = new_date\<rparr>]"
  by (simp add: sendMessage_finish_def split: sum.splits)

lemma sendMessage_finish_idle:
  "isLoading (sendMessage_finish date_now new_date outcome st) = False"
  by (simp add: sendMessage_finish_def)

lemma await_reply_failed:
  "remote_call_failed outcome \<Longrightarrow> \<exists>e. await_reply outcome = Inl e"
  by (cases outcome) (simp_all add: remote_call_failed_def await_reply_def)

lemma blank_spaces: "whitespace_only (js ''   '')"
  by (simp add: whitespace_only_def js_def is_white_space_def)

text \<open>
  C2. A send is a no-op when the text it would send is empty or consists of white space
  only, and when a request is pending: the conversation and the pending flag stay as they
  are, and no request is issued. The text is the argument of the call or, when the call
  has no argument or an empty one, the content of the input box.
\<close>

theorem blank_or_pending_send_is_noop:
  assumes "textToSend messageText (inputMessage st) = Text t"
      and "whitespace_only t \<or> isLoading st"
  shows "sendMessage_start date_now new_date messageText st = Returned
       \<and> issued_request (sendMessage_start date_now new_date messageText st) = None
       \<and> sendMessage date_now new_date date_now' new_date' fetch messageText st = st"
proof -
  from assms have "sendMessage_start date_now new_date messageText st = Returned"
    by (auto simp: sendMessage_start_def trim_empty_iff)
  then show ?thesis
    by (simp add: issued_request_def sendMessage_def)
qed

theorem blank_or_pending_send_is_noop_witness:
  "sendMessage 5 6 7 8 (\<lambda>req. FetchRejected) (TextArgument (js ''   '')) (sample_state 3 (js ''hello'') False)
     = sample_state 3 (js ''hello'') False
   \<and> sendMessage 5 6 7 8 (\<lambda>req. FetchRejected) NoArgument (sample_state 3 [] False) = sample_state 3 [] False
   \<and> sendMessage 5 6 7 8 (\<lambda>req. FetchRejected) (TextArgument (js ''hello'')) (sample_state 3 [] True)
     = sample_state 3 [] True
   \<and> issued_request
       (sendMessage_start 5 6 (TextArgument (js ''hello'')) (sample_state 3 [] True)) = None"
proof -
  have a: "textToSend (TextArgument (js ''   '')) (inputMessage (sample_state 3 (js ''hello'') False))
             = Text (js ''   '')"
    by (simp add: textToSend_def js_def)
  have b: "textToSend NoArgument (inputMessage (sample_state 3 [] False)) = Text []"
    by (simp add: textToSend_def sample_state_sel)
  have c: "textToSend (TextArgument (js ''hello'')) (inputMessage (sample_state 3 [] True))
             = Text (js ''hello'')"
    by (simp add: textToSend_def js_def)
  have a': "whitespace_only (js ''   '') \<or> isLoading (sample_state 3 (js ''hello'') False)"
    by (simp add: blank_spaces)
  have b': "whitespace_only [] \<or> isLoading (sample_state 3 [] False)"
    by (simp add: whitespace_only_Nil)
  have c': "whitespace_only (js ''hello'') \<or> isLoading (sample_state 3 [] True)"
    by (simp add: sample_state_sel)
  from blank_or_pending_send_is_noop [OF a a', of 5 6 7 8 "\<lambda>req. FetchRejected"]
       blank_or_pending_send_is_noop [OF b b', of 5 6 7 8 "\<lambda>req. FetchRejected"]
       blank_or_pending_send_is_noop [OF c c', of 5 6 7 8 "\<lambda>req. FetchRejected"]
  show ?thesis by blast
qed

text \<open>
  C3. An accepted send appends the user message, and when its request has ended, in
  whatever way, exactly one assistant message: the reply or the apology. A call that runs
  undisturbed leaves the conversation two messages longer, and the step that ends a call
  appends one assistant message to any conversation it finds.
\<close>

theorem accepted_send_appends_one_reply:
  assumes "sendMessage_start date_now new_date messageText st = Fetching st' req"
  shows "(\<exists>u a. messages (sendMessage_finish date_now' new_date' outcome st')
                  = messages st @ [u, a] \<and> role u = user \<and> role a = assistant)
       \<and> length (messages (sendMessage_finish date_now' new_date' outcome st'))
           = length (messages st) + 2
       \<and> length (messages (sendMessage date_now new_date date_now' new_date' fetch messageText st))
           = length (messages st) + 2
       \<and> (\<exists>a. messages (sendMessage_finish date_now' new_date' outcome st'')
                = messages st'' @ [a] \<and> role a = assistant)"
proof -
  from assms obtain t where t: "textToSend messageText (inputMessage st) = Text t"
    "\<not> whitespace_only t" "\<not> isLoading st"
    by (rule sendMessage_start_FetchingD)
  from sendMessage_start_accepted [OF t, of date_now new_date] assms
  have st': "messages st' = messages st @
               [\<lparr>msg_id = toString date_now, role = user, content = t, timestamp = new_date\<rparr>]"
    by auto
  have one: "\<exists>u a. messages (sendMessage_finish date_now' new_date' outcome st')
                  = messages st @ [u, a] \<and> role u = user \<and> role a = assistant"
    by (simp add: sendMessage_finish_appends st')
  have two: "length (messages (sendMessage_finish date_now' new_date' x st'))
               = length (messages st) + 2" for x
    by (simp add: sendMessage_finish_appends st')
  have three: "\<exists>a. messages (sendMessage_finish date_now' new_date' outcome st'')
                = messages st'' @ [a] \<and> role a = assistant"
    by (simp add: sendMessage_finish_appends)
  from one two three show ?thesis
    by (simp add: sendMessage_def assms)
qed

theorem accepted_send_appends_one_reply_witness:
  "length (messages (sendMessage 5 6 7 8 (\<lambda>req. FetchRejected) (TextArgument (js ''hello''))
                       (sample_state 3 [] False))) = 5
   \<and> length (messages (sendMessage 5 6 7 8
                         (\<lambda>req. Response \<lparr>status = 200, res_message = js ''hello'',
                                           res_usage = None\<rparr>)
                         (TextArgument (js ''hello'')) (sample_state 3 [] False))) = 5"
proof -
  have t: "textToSend (TextArgument (js ''hello'')) (inputMessage (sample_state 3 [] False))
             = Text (js ''hello'')"
    by (simp add: textToSend_def js_def)
  have l: "\<not> isLoading (sample_state 3 [] False)"
    by (simp add: sample_state_sel)
  note h = sendMessage_start_accepted [OF t not_blank_hello l, of 5 6]
  from accepted_send_appends_one_reply [OF h, of 7 8 FetchRejected "\<lambda>req. FetchRejected"]
       accepted_send_appends_one_reply [OF h, of 7 8 FetchRejected
         "\<lambda>req. Response \<lparr>status = 200, res_message = js ''hello'', res_usage = None\<rparr>"]
  show ?thesis
    by (simp add: sample_state_sel length_sample_turns)
qed

text \<open>
  C4. When the request of an accepted send fails (the fetch or the reading of its body is
  rejected, or the response has a status outside 200 to 299, such as the 429 of an
  exceeded quota), the conversation gains exactly one assistant message, whose content is
  the fixed apology, and the pending flag is false again.
\<close>

theorem failed_call_appends_apology:
  assumes "sendMessage_start date_now new_date messageText st = Fetching st' req"
      and "remote_call_failed outcome"
  shows "(\<exists>u. role u = user \<and>
            messages (sendMessage_finish date_now' new_date' outcome st')
              = messages st @
                  [u, \<lparr>msg_id = toString (date_now' + 1), role = assistant, content = APOLOGY,
                       timestamp = new_date'\<rparr>])
       \<and> isLoading (sendMessage_finish date_now' new_date' outcome st') = False
       \<and> messages (sendMessage_finish date_now' new_date' outcome st'')
           = messages st'' @
               [\<lparr>msg_id = toString (date_now' + 1), role = assistant, content = APOLOGY,
                 timestamp = new_date'\<rparr>]
       \<and> isLoading (sendMessage_finish date_now' new_date' outcome st'') = False"
proof -
  from assms(1) obtain t where t: "textToSend messageText (inputMessage st) = Text t"
    "\<not> whitespace_only t" "\<not> isLoading st"
    by (rule sendMessage_start_FetchingD)
  from sendMessage_start_accepted [OF t, of date_now new_date] assms(1)
  have st': "messages st' = messages st @
               [\<lparr>msg_id = toString date_now, role = user, content = t, timestamp = new_date\<rparr>]"
    by auto
  from assms(2) obtain e where e: "await_reply outcome = Inl e"
    using await_reply_failed by blast
  show ?thesis
    by (simp add: sendMessage_finish_appends sendMessage_finish_idle st' e)
qed

theorem failed_call_appends_apology_witness:
  "messages (sendMessage 5 6 7 8 (\<lambda>req. Response (json_response 429 (js ''API quota exceeded'')))
               (TextArgument (js ''hello'')) (sample_state 3 [] False))
     = sample_turns 3 @
         [\<lparr>msg_id = toString 5, role = user, content = js ''hello'', timestamp = 6\<rparr>,
          \<lparr>msg_id = toString 8, role = assistant, content = APOLOGY, timestamp = 8\<rparr>]
   \<and> isLoading (sendMessage 5 6 7 8 (\<lambda>req. Response (json_response 429 (js ''API quota exceeded'')))
               (TextArgument (js ''hello'')) (sample_state 3 [] False)) = False"
proof -
  have t: "textToSend (TextArgument (js ''hello'')) (inputMessage (sample_state 3 [] False))
             = Text (js ''hello'')"
    by (simp add: textToSend_def js_def)
  have l: "\<not> isLoading (sample_state 3 [] False)"
    by (simp add: sample_state_sel)
  note h = sendMessage_start_accepted [OF t not_blank_hello l, of 5 6]
  have f: "remote_call_failed (Response (json_response 429 (js ''API quota exceeded'')))"
    by (simp add: remote_call_failed_def ok_def json_response_def)
  from failed_call_appends_apology [OF h f, of 7 8]
  show ?thesis
    by (simp add: sendMessage_def h sample_state_sel)
qed

lemma not_blank_headache: "\<not> whitespace_only (js ''I have a headache'')"
  by (simp add: whitespace_only_def js_def is_white_space_def)

lemma first_send_start:
  "sendMessage_start date_now new_date (TextArgument (js ''I have a headache'')) (initial_state t0)
     = Fetching
         \<lparr>messages =
            [\<lparr>msg_id = js ''1'', role = assistant, content = WELCOME, timestamp = t0\<rparr>,
             \<lparr>msg_id = toString date_now, role = user, content = js ''I have a headache'',
              timestamp = new_date\<rparr>],
          inputMessage = [], isLoading = True\<rparr>
         \<lparr>url = js ''/api/chat/medical'', fetch_method = js ''POST'',
          content_type = js ''application/json'',
          request_body =
            \<lparr>message = js ''I have a headache'',
             conversationHistory = [\<lparr>entry_role = assistant, entry_content = WELCOME\<rparr>]\<rparr>\<rparr>"
proof -
  have t: "textToSend (TextArgument (js ''I have a headache'')) (inputMessage (initial_state t0))
             = Text (js ''I have a headache'')"
    by (simp add: textToSend_def js_def)
  have l: "\<not> isLoading (initial_state t0)"
    by (simp add: initial_state_def)
  from sendMessage_start_accepted [OF t not_blank_headache l, of date_now new_date]
  show ?thesis
    by (simp add: initial_state_def history_entry_def)
qed

text \<open>
  C5, as the claim has it: the first send from the seeded conversation passes a history
  of length 0. It does not: the welcome message is in the conversation when the send is
  made, and \<open>slice(-10)\<close> takes it.
\<close>

theorem first_send_history_counterexample:
  "map_option length
     (issued_history
        (sendMessage_start 1700000000000 1700000000001 (TextArgument (js ''I have a headache''))
           (initial_state 1699999999000)))
     = Some 1
   \<and> map_option length
     (issued_history
        (sendMessage_start 1700000000000 1700000000001 (TextArgument (js ''I have a headache''))
           (initial_state 1699999999000)))
     \<noteq> Some 0"
  by (simp add: first_send_start issued_history_def issued_request_def)

text \<open>
  C5, amended. From the conversation seeded with the welcome message, sending
  \<open>I have a headache\<close> issues one request, whose history has length 1 and holds the welcome
  message; when that request succeeds with the text \<open>Try resting.\<close>, the conversation is
  the welcome message, the user message and the assistant message \<open>Try resting.\<close>, of
  length 3.
\<close>

theorem first_send_scenario:
  "issued_request
     (sendMessage_start date_now new_date (TextArgument (js ''I have a headache''))
        (initial_state t0))
     = Some \<lparr>url = js ''/api/chat/medical'', fetch_method = js ''POST'',
             content_type = js ''application/json'',
             request_body =
               \<lparr>message = js ''I have a headache'',
                conversationHistory = [\<lparr>entry_role = assistant, entry_content = WELCOME\<rparr>]\<rparr>\<rparr>
   \<and> map_option length
       (issued_history
          (sendMessage_start date_now new_date (TextArgument (js ''I have a headache''))
             (initial_state t0)))
       = Some 1
   \<and> messages
       (sendMessage date_now new_date date_now' new_date'
          (\<lambda>req. Response \<lparr>status = 200, res_message = js ''Try resting.'', res_usage = u\<rparr>)
          (TextArgument (js ''I have a headache'')) (initial_state t0))
       = [\<lparr>msg_id = js ''1'', role = assistant, content = WELCOME, timestamp = t0\<rparr>,
          \<lparr>msg_id = toString date_now, role = user, content = js ''I have a headache'',
           timestamp = new_date\<rparr>,
          \<lparr>msg_id = toString (date_now' + 1), role = assistant, content = js ''Try resting.'',
           timestamp = new_date'\<rparr>]
   \<and> length (messages
       (sendMessage date_now new_date date_now' new_date'
          (\<lambda>req. Response \<lparr>status = 200, res_message = js ''Try resting.'', res_usage = u\<rparr>)
          (TextArgument (js ''I have a headache'')) (initial_state t0))) = 3"
  by (simp add: first_send_start issued_history_def issued_request_def sendMessage_def
        sendMessage_finish_appends await_reply_def ok_def)

text \<open>
  C8. \<open>clearChat\<close> leaves a conversation of exactly one message, the welcome-back message
  of the assistant, whatever the conversation was and whether or not a request is
  pending; the pending flag and the input box are not touched.
\<close>

theorem clearChat_single_welcome:
  "messages (clearChat new_date st)
     = [\<lparr>msg_id = js ''1'', role = assistant, content = WELCOME_BACK, timestamp = new_date\<rparr>]
   \<and> length (messages (clearChat new_date st)) = 1
   \<and> role (hd (messages (clearChat new_date st))) = assistant
   \<and> isLoading (clearChat new_date st) = isLoading st
   \<and> inputMessage (clearChat new_date st) = inputMessage st"
  by (simp add: clearChat_def)

text \<open>
  A request that is pending when the conversation is cleared is not cancelled: its reply
  is appended to the new conversation.
\<close>

lemma reply_after_clearChat:
  "\<exists>a. messages (sendMessage_finish date_now new_date outcome (clearChat t st))
         = [\<lparr>msg_id = js ''1'', role = assistant, content = WELCOME_BACK, timestamp = t\<rparr>, a]
       \<and> role a = assistant"
  by (simp add: sendMessage_finish_appends clearChat_def)

section \<open>Properties of the endpoint\<close>

lemma key_names_differ:
  "js ''role'' \<noteq> js ''content''" "js ''content'' \<noteq> js ''role''"
  "js ''message'' \<noteq> js ''conversationHistory''" "js ''conversationHistory'' \<noteq> js ''message''"
  by (simp_all add: js_def)

lemma property_entry_json:
  "property (entry_json e) (js ''role'') = Some (role_json (entry_role e))"
  "property (entry_json e) (js ''content'') = Some (JsString (entry_content e))"
  by (simp_all add: entry_json_def key_names_differ)

lemma map_history_entries:
  "map_history (map entry_json window) = Some (map prompt_entry window)"
  by (induction window) (simp_all add: property_entry_json prompt_entry_def)

lemma build_messages_entries:
  "build_messages m (JsArray (map entry_json window))
     = Inr (system_message # map prompt_entry window @ [user_message m])"
  by (simp add: build_messages_def map_history_entries)

text \<open>The handler reads the body that the component wrote as the component meant it.\<close>

lemma destructure_body_json:
  "destructure (body_json b)
     = Some (JsString (message b), JsArray (map entry_json (conversationHistory b)))"
  by (simp add: destructure_def body_json_def key_names_differ)

lemma aiResponse_top:
  "aiResponse \<lparr>choices = Choice (Some (ChatCompletionMessage (Some t))) # others, usage = u\<rparr>
     = Some t"
  by (simp add: aiResponse_def)

lemma try_block_calls:
  "build_messages m h = Inr msgs \<Longrightarrow>
     snd (try_block create m h) = [CreateCompletion (completion_request msgs)]"
  by (simp add: try_block_def Let_def split: RemoteResult.splits option.splits)

lemma try_block_no_call:
  "build_messages m h = Inl e \<Longrightarrow> try_block create m h = (Inl e, [])"
  by (simp add: try_block_def)

lemma map_history_objects:
  "map_history (map (\<lambda>(r, c). JsObject [(js ''role'', r), (js ''content'', c)]) window)
     = Some (map (\<lambda>(r, c). \<lparr>prompt_role = r, prompt_content = c\<rparr>) window)"
  by (induction window) (auto simp: key_names_differ)

lemma build_messages_objects:
  "build_messages m
     (JsArray (map (\<lambda>(r, c). JsObject [(js ''role'', r), (js ''content'', c)]) window))
     = Inr (\<lparr>prompt_role = JsString (js ''system''),
              prompt_content = JsString MEDICAL_SYSTEM_PROMPT\<rparr>
            # map (\<lambda>(r, c). \<lparr>prompt_role = r, prompt_content = c\<rparr>) window
            @ [\<lparr>prompt_role = JsString (js ''user''), prompt_content = m\<rparr>])"
  by (simp add: build_messages_def map_history_objects system_message_def user_message_def)

text \<open>
  C6. For every user message and every context window (a list of role and content
  pairs, sent as an array of objects), the \<open>try\<close> block of the handler builds the prompt as
  the system message with the fixed instruction, then the entries of the window in their
  order, then the user message, and calls the remote API once, with that prompt, the model
  \<open>gpt-4o\<close> and the fixed parameters. When the call resolves and its first choice has a
  text that is not empty, the block answers 200 with that text; when the call resolves
  and the first choice has no text (there is no choice, or the first has no message, no
  content or an empty one, whatever the other choices hold), the block throws the error
  \<open>No response from OpenAI\<close>.
\<close>

theorem complete_builds_prompt_and_returns_top_text:
  assumes "history
             = JsArray (map (\<lambda>(r, c). JsObject [(js ''role'', r), (js ''content'', c)]) window)"
      and "prompt
             = \<lparr>prompt_role = JsString (js ''system''),
                prompt_content = JsString MEDICAL_SYSTEM_PROMPT\<rparr>
               # map (\<lambda>(r, c). \<lparr>prompt_role = r, prompt_content = c\<rparr>) window
               @ [\<lparr>prompt_role = JsString (js ''user''), prompt_content = m\<rparr>]"
      and "request
             = \<lparr>model = js ''gpt-4o'', request_messages = prompt, max_tokens = 1000,
                temperature = 7 / 10, presence_penalty = 1 / 10, frequency_penalty = 1 / 10\<rparr>"
  shows "build_messages m history = Inr prompt
       \<and> snd (try_block create m history) = [CreateCompletion request]
       \<and> (create request
             = Resolved \<lparr>choices = Choice (Some (ChatCompletionMessage (Some t))) # others,
                          usage = u\<rparr>
            \<and> t \<noteq> []
          \<longrightarrow> fst (try_block create m history)
                = Inr \<lparr>status = 200, res_message = t, res_usage = u\<rparr>)
       \<and> (create request = Resolved \<lparr>choices = cs, usage = u'\<rparr>
            \<and> (cs = []
                 \<or> cs = Choice None # rest
                 \<or> cs = Choice (Some (ChatCompletionMessage None)) # rest
                 \<or> cs = Choice (Some (ChatCompletionMessage (Some []))) # rest)
          \<longrightarrow> fst (try_block create m history)
                = Inl (Error (js ''No response from OpenAI'')))"
proof -
  have b: "build_messages m history = Inr prompt"
    unfolding assms(1,2) by (rule build_messages_objects)
  have r: "completion_request prompt = request"
    by (simp add: completion_request_def assms(3))
  have calls: "snd (try_block create m history) = [CreateCompletion request]"
    using try_block_calls [OF b, of create] r by simp
  have top: "fst (try_block create m history)
               = Inr \<lparr>status = 200, res_message = t, res_usage = u\<rparr>"
    if "create request
          = Resolved \<lparr>choices = Choice (Some (ChatCompletionMessage (Some t))) # others,
                       usage = u\<rparr>" and "t \<noteq> []"
    using b r that by (simp add: try_block_def aiResponse_def)
  have none: "fst (try_block create m history) = Inl (Error (js ''No response from OpenAI''))"
    if "create request = Resolved \<lparr>choices = cs, usage = u'\<rparr>"
      and "cs = []
           \<or> cs = Choice None # rest
           \<or> cs = Choice (Some (ChatCompletionMessage None)) # rest
           \<or> cs = Choice (Some (ChatCompletionMessage (Some []))) # rest"
    using b r that by (auto simp: try_block_def aiResponse_def)
  show ?thesis
  proof (intro conjI impI)
    show "build_messages m history = Inr prompt" by (rule b)
    show "snd (try_block create m history) = [CreateCompletion request]" by (rule calls)
    show "fst (try_block create m history)
            = Inr \<lparr>status = 200, res_message = t, res_usage = u\<rparr>"
      if "create request
            = Resolved \<lparr>choices = Choice (Some (ChatCompletionMessage (Some t))) # others,
                         usage = u\<rparr>
          \<and> t \<noteq> []"
      using that top by simp
    show "fst (try_block create m history) = Inl (Error (js ''No response from OpenAI''))"
      if "create request = Resolved \<lparr>choices = cs, usage = u'\<rparr>
          \<and> (cs = []
               \<or> cs = Choice None # rest
               \<or> cs = Choice (Some (ChatCompletionMessage None)) # rest
               \<or> cs = Choice (Some (ChatCompletionMessage (Some []))) # rest)"
      using that none by simp
  qed
qed

theorem complete_builds_prompt_and_returns_top_text_witness:
  "fst (try_block (remote_answers (js ''Try resting.'')) (JsString (js ''I have a headache''))
          (JsArray [JsObject [(js ''role'', JsString (js ''assistant'')),
                              (js ''content'', JsString (js ''Welcome''))]]))
     = Inr \<lparr>status = 200, res_message = js ''Try resting.'', res_usage = None\<rparr>
   \<and> snd (try_block (remote_answers (js ''Try resting.'')) (JsString (js ''I have a headache''))
          (JsArray [JsObject [(js ''role'', JsString (js ''assistant'')),
                              (js ''content'', JsString (js ''Welcome''))]]))
     = [CreateCompletion
          \<lparr>model = js ''gpt-4o'',
           request_messages =
             [\<lparr>prompt_role = JsString (js ''system''),
               prompt_content = JsString MEDICAL_SYSTEM_PROMPT\<rparr>,
              \<lparr>prompt_role = JsString (js ''assistant''),
               prompt_content = JsString (js ''Welcome'')\<rparr>,
              \<lparr>prompt_role = JsString (js ''user''),
               prompt_content = JsString (js ''I have a headache'')\<rparr>],
           max_tokens = 1000, temperature = 7 / 10, presence_penalty = 1 / 10,
           frequency_penalty = 1 / 10\<rparr>]
   \<and> fst (try_block (remote_first_choice_empty (js ''second''))
          (JsString (js ''I have a headache''))
          (JsArray [JsObject [(js ''role'', JsString (js ''assistant'')),
                              (js ''content'', JsString (js ''Welcome''))]]))
     = Inl (Error (js ''No response from OpenAI''))"
proof -
  let ?m = "JsString (js ''I have a headache'')"
  let ?w = "[(JsString (js ''assistant''), JsString (js ''Welcome''))]"
  let ?h = "JsArray [JsObject [(js ''role'', JsString (js ''assistant'')),
                               (js ''content'', JsString (js ''Welcome''))]]"
  let ?p = "[\<lparr>prompt_role = JsString (js ''system''),
               prompt_content = JsString MEDICAL_SYSTEM_PROMPT\<rparr>,
              \<lparr>prompt_role = JsString (js ''assistant''),
               prompt_content = JsString (js ''Welcome'')\<rparr>,
              \<lparr>prompt_role = JsString (js ''user''), prompt_content = ?m\<rparr>]"
  let ?r = "\<lparr>model = js ''gpt-4o'', request_messages = ?p, max_tokens = 1000,
             temperature = 7 / 10, presence_penalty = 1 / 10, frequency_penalty = 1 / 10\<rparr>"
  have h: "?h = JsArray (map (\<lambda>(r, c). JsObject [(js ''role'', r), (js ''content'', c)]) ?w)"
    by simp
  have p: "?p = \<lparr>prompt_role = JsString (js ''system''),
                   prompt_content = JsString MEDICAL_SYSTEM_PROMPT\<rparr>
                 # map (\<lambda>(r, c). \<lparr>prompt_role = r, prompt_content = c\<rparr>) ?w
                 @ [\<lparr>prompt_role = JsString (js ''user''), prompt_content = ?m\<rparr>]"
    by simp
  have r: "?r = \<lparr>model = js ''gpt-4o'', request_messages = ?p, max_tokens = 1000,
             temperature = 7 / 10, presence_penalty = 1 / 10, frequency_penalty = 1 / 10\<rparr>"
    by simp
  have n: "js ''Try resting.'' \<noteq> []"
    by (simp add: js_def)
  have a: "remote_answers (js ''Try resting.'') ?r
             = Resolved \<lparr>choices = Choice (Some (ChatCompletionMessage (Some (js ''Try resting.''))))
                                      # [],
                          usage = None\<rparr>"
    by (simp add: remote_answers_def)
  have e: "remote_first_choice_empty (js ''second'') ?r
             = Resolved \<lparr>choices = [Choice (Some (ChatCompletionMessage (Some []))),
                                     Choice (Some (ChatCompletionMessage (Some (js ''second''))))],
                          usage = None\<rparr>"
    by (simp add: remote_first_choice_empty_def)
  note w1 = complete_builds_prompt_and_returns_top_text [OF h p r,
      of "remote_answers (js ''Try resting.'')"]
  note w2 = complete_builds_prompt_and_returns_top_text [OF h p r,
      where create = "remote_first_choice_empty (js ''second'')"
        and cs = "[Choice (Some (ChatCompletionMessage (Some []))),
                   Choice (Some (ChatCompletionMessage (Some (js ''second''))))]"
        and u' = None
        and rest = "[Choice (Some (ChatCompletionMessage (Some (js ''second''))))]"]
  have one: "fst (try_block (remote_answers (js ''Try resting.'')) ?m ?h)
               = Inr \<lparr>status = 200, res_message = js ''Try resting.'', res_usage = None\<rparr>"
    by (rule w1 [THEN conjunct2, THEN conjunct2, THEN conjunct1, THEN mp]) (simp add: a n)
  have two: "snd (try_block (remote_answers (js ''Try resting.'')) ?m ?h) = [CreateCompletion ?r]"
    by (rule w1 [THEN conjunct2, THEN conjunct1])
  have three: "fst (try_block (remote_first_choice_empty (js ''second'')) ?m ?h)
               = Inl (Error (js ''No response from OpenAI''))"
    by (rule w2 [THEN conjunct2, THEN conjunct2, THEN conjunct2, THEN mp]) (simp add: e)
  from one two three show ?thesis
    by (intro conjI)
qed

lemma catch_block_status:
  "status (catch_block e) = 401 \<or> status (catch_block e) = 429 \<or> status (catch_block e) = 500"
  by (simp add: catch_block_def json_response_def split: Thrown.splits)

lemma try_block_Inr:
  "fst (try_block create m h) = Inr r \<Longrightarrow> status r = 200 \<and> res_message r \<noteq> []"
  by (auto simp: try_block_def Let_def
           split: sum.splits RemoteResult.splits option.splits if_splits)

lemma handler_past_checks:
  assumes "req_method req = js ''POST''" and "session \<noteq> None"
      and "destructure (req_body req) = Some (m, h)"
      and "truthy m" and "\<not> key_missing api_key"
  shows "handler create api_key session req =
           (case try_block create m h of
              (Inr response, effects) \<Rightarrow> (Sent response, GetServerSession # effects)
            | (Inl error, effects) \<Rightarrow>
                (Sent (catch_block error), GetServerSession # effects @ [ConsoleError error]))"
  using assms by (auto simp: handler_def)

lemma handler_success:
  assumes "req_method req = js ''POST''" and "session \<noteq> None"
      and "destructure (req_body req) = Some (m, h)"
      and "truthy m" and "\<not> key_missing api_key"
      and "fst (try_block create m h) = Inr r"
  shows "fst (handler create api_key session req) = Sent r"
  using assms(6) unfolding handler_past_checks [OF assms(1-5)]
  by (cases "try_block create m h") simp

lemma handler_caught:
  assumes "req_method req = js ''POST''" and "session \<noteq> None"
      and "destructure (req_body req) = Some (m, h)"
      and "truthy m" and "\<not> key_missing api_key"
      and "fst (try_block create m h) = Inl e"
  shows "fst (handler create api_key session req) = Sent (catch_block e)"
  using assms(6) unfolding handler_past_checks [OF assms(1-5)]
  by (cases "try_block create m h") simp

lemma handler_post_status:
  assumes "req_method req = js ''POST''"
      and "fst (handler create api_key session req) = Sent r"
  shows "status r \<in> {200, 400, 401, 429, 500}"
proof (cases session)
  case None
  with assms show ?thesis by (auto simp: handler_def json_response_def)
next
  case (Some s)
  show ?thesis
  proof (cases "destructure (req_body req)")
    case None
    with assms Some show ?thesis by (simp add: handler_def)
  next
    case (Some mh)
    obtain m h where mh: "mh = (m, h)" by (cases mh)
    note d = Some [unfolded mh]
    show ?thesis
    proof (cases "truthy m \<and> \<not> key_missing api_key")
      case False
      with assms \<open>session = Some s\<close> d show ?thesis
        by (auto simp: handler_def json_response_def split: if_splits)
    next
      case True
      have s: "session \<noteq> None" using \<open>session = Some s\<close> by simp
      show ?thesis
      proof (cases "fst (try_block create m h)")
        case (Inl e)
        from handler_caught [OF assms(1) s d _ _ Inl] True assms(2)
        have "r = catch_block e" by simp
        with catch_block_status [of e] show ?thesis by auto
      next
        case (Inr r')
        from handler_success [OF assms(1) s d _ _ Inr] True assms(2)
        have "r = r'" by simp
        with try_block_Inr [OF Inr] show ?thesis by simp
      qed
    qed
  qed
qed

lemma destructure_object:
  "destructure (JsObject props)
     = Some (case map_of (rev props) (js ''message'') of None \<Rightarrow> JsUndefined | Some v \<Rightarrow> v,
             case map_of (rev props) (js ''conversationHistory'') of
               None \<Rightarrow> JsArray []
             | Some v \<Rightarrow> if v = JsUndefined then JsArray [] else v)"
  by (simp add: destructure_def split: option.splits)

lemma destructure_defined:
  "b \<noteq> JsNull \<Longrightarrow> b \<noteq> JsUndefined \<Longrightarrow> \<exists>m h. destructure b = Some (m, h)"
  by (cases b) (simp_all add: destructure_def)

lemma sample_error_messages:
  "includes_str (js ''401 Incorrect API key provided.'') (js ''API key'')"
  "\<not> includes_str (js ''429 You exceeded your current quota.'') (js ''API key'')"
  "includes_str (js ''429 You exceeded your current quota.'') (js ''quota'')"
  "\<not> includes_str (js ''Connection error.'') (js ''API key'')"
  "\<not> includes_str (js ''Connection error.'') (js ''quota'')"
  "includes_str (js ''You exceeded your current quota for this API key.'') (js ''API key'')"
  by (simp_all add: js_def)

text \<open>
  C7, as the claim has it: an exceeded quota is answered 429, and every failure is
  answered with a status and a message. Neither holds. The handler classifies an error of
  the remote call by its message, looking for \<open>API key\<close> before \<open>quota\<close>, so an exceeded
  quota whose message names the API key is answered 401; and a body \<open>null\<close> makes the
  destructuring of the body throw before the \<open>try\<close> block, so that the handler sends no
  answer at all.
\<close>

theorem handler_status_codes_counterexample:
  "fst (handler (remote_rejects (Error (js ''You exceeded your current quota for this API key.'')))
          (Some (js ''sk-test'')) (Some ()) (post_request headache_body))
     = Sent \<lparr>status = 401, res_message = js ''Invalid OpenAI API key'', res_usage = None\<rparr>
   \<and> fst (handler (remote_rejects (Error (js ''You exceeded your current quota for this API key.'')))
          (Some (js ''sk-test'')) (Some ()) (post_request headache_body))
     \<noteq> Sent \<lparr>status = 429, res_message = js ''API quota exceeded'', res_usage = None\<rparr>
   \<and> handler (remote_answers (js ''Try resting.'')) (Some (js ''sk-test'')) (Some ())
        (post_request JsNull)
     = (Unhandled TypeError, [GetServerSession])"
proof -
  have one: "fst (handler (remote_rejects (Error (js ''You exceeded your current quota for this API key.'')))
          (Some (js ''sk-test'')) (Some ()) (post_request headache_body))
     = Sent \<lparr>status = 401, res_message = js ''Invalid OpenAI API key'', res_usage = None\<rparr>"
    by (simp add: handler_def post_request_def headache_body_def destructure_object
          key_missing_def try_block_def build_messages_def remote_rejects_def catch_block_def
          json_response_def sample_error_messages(6))
       (simp add: js_def)
  have two: "handler (remote_answers (js ''Try resting.'')) (Some (js ''sk-test'')) (Some ())
        (post_request JsNull)
     = (Unhandled TypeError, [GetServerSession])"
    by (simp add: handler_def post_request_def destructure_def)
  from one two show ?thesis by simp
qed

text \<open>
  C7, amended. What the handler answers to a POST request whose body is not \<open>null\<close>,
  check by check in the order of the code, each time with a status and a message. Without
  a session: 401, and no remote call is made. With a session and a body whose \<open>message\<close>
  is missing or empty (or a body that has no fields): 400. With a message but no API key
  in the environment: 500. Past these checks: 200 with the text and the usage when the
  remote call answers with a text; 401 when the remote call is rejected with an error
  whose message contains \<open>API key\<close>; 429 when it is rejected with an error whose message
  contains \<open>quota\<close> and not \<open>API key\<close>; 500 for every other failure of the \<open>try\<close> block.
  Such a request is always answered, with one of these statuses.
\<close>

theorem handler_status_codes:
  assumes post: "req_method req = js ''POST''"
      and hist: "h = (case map_of (rev props) (js ''conversationHistory'') of
                        None \<Rightarrow> JsArray []
                      | Some v \<Rightarrow> if v = JsUndefined then JsArray [] else v)"
  shows
    "(session = None \<longrightarrow>
        handler create api_key session req = (Sent \<lparr>status = 401, res_message = js ''Unauthorized'', res_usage = None\<rparr>, [GetServerSession]))
   \<and> (session \<noteq> None \<and> req_body req = JsObject props
        \<and> (map_of (rev props) (js ''message'') = None
             \<or> map_of (rev props) (js ''message'') = Some (JsString [])) \<longrightarrow>
        handler create api_key session req = (Sent \<lparr>status = 400, res_message = js ''Message is required'', res_usage = None\<rparr>, [GetServerSession]))
   \<and> (session \<noteq> None \<and> req_body req \<noteq> JsNull \<and> req_body req \<noteq> JsUndefined
        \<and> (\<forall>ps. req_body req \<noteq> JsObject ps) \<longrightarrow>
        handler create api_key session req = (Sent \<lparr>status = 400, res_message = js ''Message is required'', res_usage = None\<rparr>, [GetServerSession]))
   \<and> (session \<noteq> None \<and> req_body req = JsObject props
        \<and> map_of (rev props) (js ''message'') = Some (JsString t) \<and> t \<noteq> []
        \<and> (api_key = None \<or> api_key = Some []) \<longrightarrow>
        handler create api_key session req = (Sent \<lparr>status = 500, res_message = js ''OpenAI API key not configured'', res_usage = None\<rparr>, [GetServerSession]))
   \<and> (session \<noteq> None \<and> req_body req = JsObject props
        \<and> map_of (rev props) (js ''message'') = Some (JsString t) \<and> t \<noteq> []
        \<and> api_key = Some k \<and> k \<noteq> [] \<and> build_messages (JsString t) h = Inr msgs
        \<and> create \<lparr>model = js ''gpt-4o'', request_messages = msgs, max_tokens = 1000,
                    temperature = 7 / 10, presence_penalty = 1 / 10,
                    frequency_penalty = 1 / 10\<rparr>
            = Resolved \<lparr>choices = Choice (Some (ChatCompletionMessage (Some a))) # others,
                         usage = u\<rparr>
        \<and> a \<noteq> [] \<longrightarrow>
        fst (handler create api_key session req) = Sent \<lparr>status = 200, res_message = a, res_usage = u\<rparr>)
   \<and> (session \<noteq> None \<and> req_body req = JsObject props
        \<and> map_of (rev props) (js ''message'') = Some (JsString t) \<and> t \<noteq> []
        \<and> api_key = Some k \<and> k \<noteq> [] \<and> build_messages (JsString t) h = Inr msgs
        \<and> create \<lparr>model = js ''gpt-4o'', request_messages = msgs, max_tokens = 1000,
                    temperature = 7 / 10, presence_penalty = 1 / 10,
                    frequency_penalty = 1 / 10\<rparr>
            = Rejected (Error e)
        \<and> includes_str e (js ''API key'') \<longrightarrow>
        fst (handler create api_key session req) = Sent \<lparr>status = 401, res_message = js ''Invalid OpenAI API key'', res_usage = None\<rparr>)
   \<and> (session \<noteq> None \<and> req_body req = JsObject props
        \<and> map_of (rev props) (js ''message'') = Some (JsString t) \<and> t \<noteq> []
        \<and> api_key = Some k \<and> k \<noteq> [] \<and> build_messages (JsString t) h = Inr msgs
        \<and> create \<lparr>model = js ''gpt-4o'', request_messages = msgs, max_tokens = 1000,
                    temperature = 7 / 10, presence_penalty = 1 / 10,
                    frequency_penalty = 1 / 10\<rparr>
            = Rejected (Error e)
        \<and> \<not> includes_str e (js ''API key'') \<and> includes_str e (js ''quota'') \<longrightarrow>
        fst (handler create api_key session req) = Sent \<lparr>status = 429, res_message = js ''API quota exceeded'', res_usage = None\<rparr>)
   \<and> (session \<noteq> None \<and> req_body req = JsObject props
        \<and> map_of (rev props) (js ''message'') = Some (JsString t) \<and> t \<noteq> []
        \<and> api_key = Some k \<and> k \<noteq> [] \<and> fst (try_block create (JsString t) h) = Inl x
        \<and> (\<forall>e'. x = Error e' \<longrightarrow>
              \<not> includes_str e' (js ''API key'') \<and> \<not> includes_str e' (js ''quota'')) \<longrightarrow>
        fst (handler create api_key session req)
          = Sent \<lparr>status = 500, res_message = js ''Failed to get AI response. Please try again later.'', res_usage = None\<rparr>)
   \<and> (session = None \<or> (req_body req \<noteq> JsNull \<and> req_body req \<noteq> JsUndefined) \<longrightarrow>
        (\<exists>r. fst (handler create api_key session req) = Sent r \<and> status r \<in> {200, 400, 401, 429, 500}))"
proof -
  have c1: "session = None \<longrightarrow>
        handler create api_key session req = (Sent \<lparr>status = 401, res_message = js ''Unauthorized'', res_usage = None\<rparr>, [GetServerSession])"
    using post by (simp add: handler_def json_response_def)
  have c2: "session \<noteq> None \<and> req_body req = JsObject props
        \<and> (map_of (rev props) (js ''message'') = None
             \<or> map_of (rev props) (js ''message'') = Some (JsString [])) \<longrightarrow>
        handler create api_key session req = (Sent \<lparr>status = 400, res_message = js ''Message is required'', res_usage = None\<rparr>, [GetServerSession])"
    using post by (auto simp: handler_def json_response_def destructure_object)
  have c3: "session \<noteq> None \<and> req_body req \<noteq> JsNull \<and> req_body req \<noteq> JsUndefined
        \<and> (\<forall>ps. req_body req \<noteq> JsObject ps) \<longrightarrow>
        handler create api_key session req = (Sent \<lparr>status = 400, res_message = js ''Message is required'', res_usage = None\<rparr>, [GetServerSession])"
  proof (intro impI, elim conjE)
    assume a: "session \<noteq> None" "req_body req \<noteq> JsNull" "req_body req \<noteq> JsUndefined"
      "\<forall>ps. req_body req \<noteq> JsObject ps"
    have "destructure (req_body req) = Some (JsUndefined, JsArray [])"
      using a(2-4) by (cases "req_body req") (simp_all add: destructure_def)
    with post a(1) show "handler create api_key session req
        = (Sent \<lparr>status = 400, res_message = js ''Message is required'', res_usage = None\<rparr>, [GetServerSession])"
      by (auto simp: handler_def json_response_def)
  qed
  have c4: "session \<noteq> None \<and> req_body req = JsObject props
        \<and> map_of (rev props) (js ''message'') = Some (JsString t) \<and> t \<noteq> []
        \<and> (api_key = None \<or> api_key = Some []) \<longrightarrow>
        handler create api_key session req = (Sent \<lparr>status = 500, res_message = js ''OpenAI API key not configured'', res_usage = None\<rparr>, [GetServerSession])"
    using post by (auto simp: handler_def json_response_def destructure_object key_missing_def)
  have c5: "session \<noteq> None \<and> req_body req = JsObject props
        \<and> map_of (rev props) (js ''message'') = Some (JsString t) \<and> t \<noteq> []
        \<and> api_key = Some k \<and> k \<noteq> [] \<and> build_messages (JsString t) h = Inr msgs
        \<and> create \<lparr>model = js ''gpt-4o'', request_messages = msgs, max_tokens = 1000,
                    temperature = 7 / 10, presence_penalty = 1 / 10,
                    frequency_penalty = 1 / 10\<rparr>
            = Resolved \<lparr>choices = Choice (Some (ChatCompletionMessage (Some a))) # others,
                         usage = u\<rparr>
        \<and> a \<noteq> [] \<longrightarrow>
        fst (handler create api_key session req) = Sent \<lparr>status = 200, res_message = a, res_usage = u\<rparr>"
  proof (intro impI, elim conjE)
    assume a: "session \<noteq> None" "req_body req = JsObject props"
      "map_of (rev props) (js ''message'') = Some (JsString t)" "t \<noteq> []"
      "api_key = Some k" "k \<noteq> []"
      and b: "build_messages (JsString t) h = Inr msgs"
      and c: "create \<lparr>model = js ''gpt-4o'', request_messages = msgs, max_tokens = 1000,
                    temperature = 7 / 10, presence_penalty = 1 / 10,
                    frequency_penalty = 1 / 10\<rparr>
            = Resolved \<lparr>choices = Choice (Some (ChatCompletionMessage (Some a))) # others,
                         usage = u\<rparr>" "a \<noteq> []"
    have d: "destructure (req_body req) = Some (JsString t, h)"
      using a(2,3) hist by (simp add: destructure_object)
    have m: "truthy (JsString t)" using a(4) by simp
    have k: "\<not> key_missing api_key" using a(5,6) by (simp add: key_missing_def)
    have "fst (try_block create (JsString t) h)
            = Inr \<lparr>status = 200, res_message = a, res_usage = u\<rparr>"
      using b c by (simp add: try_block_def completion_request_def aiResponse_def)
    from handler_success [OF post a(1) d m k this]
    show "fst (handler create api_key session req)
            = Sent \<lparr>status = 200, res_message = a, res_usage = u\<rparr>" .
  qed
  have c6: "session \<noteq> None \<and> req_body req = JsObject props
        \<and> map_of (rev props) (js ''message'') = Some (JsString t) \<and> t \<noteq> []
        \<and> api_key = Some k \<and> k \<noteq> [] \<and> build_messages (JsString t) h = Inr msgs
        \<and> create \<lparr>model = js ''gpt-4o'', request_messages = msgs, max_tokens = 1000,
                    temperature = 7 / 10, presence_penalty = 1 / 10,
                    frequency_penalty = 1 / 10\<rparr>
            = Rejected (Error e)
        \<and> includes_str e (js ''API key'') \<longrightarrow>
        fst (handler create api_key session req) = Sent \<lparr>status = 401, res_message = js ''Invalid OpenAI API key'', res_usage = None\<rparr>"
  proof (intro impI, elim conjE)
    assume a: "session \<noteq> None" "req_body req = JsObject props"
      "map_of (rev props) (js ''message'') = Some (JsString t)" "t \<noteq> []"
      "api_key = Some k" "k \<noteq> []"
      and b: "build_messages (JsString t) h = Inr msgs"
      and c: "create \<lparr>model = js ''gpt-4o'', request_messages = msgs, max_tokens = 1000,
                    temperature = 7 / 10, presence_penalty = 1 / 10,
                    frequency_penalty = 1 / 10\<rparr>
            = Rejected (Error e)"
      and i: "includes_str e (js ''API key'')"
    have d: "destructure (req_body req) = Some (JsString t, h)"
      using a(2,3) hist by (simp add: destructure_object)
    have m: "truthy (JsString t)" using a(4) by simp
    have k: "\<not> key_missing api_key" using a(5,6) by (simp add: key_missing_def)
    have "fst (try_block create (JsString t) h) = Inl (Error e)"
      using b c by (simp add: try_block_def completion_request_def)
    from handler_caught [OF post a(1) d m k this] i
    show "fst (handler create api_key session req) = Sent \<lparr>status = 401, res_message = js ''Invalid OpenAI API key'', res_usage = None\<rparr>"
      by (simp add: catch_block_def json_response_def)
  qed
  have c7: "session \<noteq> None \<and> req_body req = JsObject props
        \<and> map_of (rev props) (js ''message'') = Some (JsString t) \<and> t \<noteq> []
        \<and> api_key = Some k \<and> k \<noteq> [] \<and> build_messages (JsString t) h = Inr msgs
        \<and> create \<lparr>model = js ''gpt-4o'', request_messages = msgs, max_tokens = 1000,
                    temperature = 7 / 10, presence_penalty = 1 / 10,
                    frequency_penalty = 1 / 10\<rparr>
            = Rejected (Error e)
        \<and> \<not> includes_str e (js ''API key'') \<and> includes_str e (js ''quota'') \<longrightarrow>
        fst (handler create api_key session req) = Sent \<lparr>status = 429, res_message = js ''API quota exceeded'', res_usage = None\<rparr>"
  proof (intro impI, elim conjE)
    assume a: "session \<noteq> None" "req_body req = JsObject props"
      "map_of (rev props) (js ''message'') = Some (JsString t)" "t \<noteq> []"
      "api_key = Some k" "k \<noteq> []"
      and b: "build_messages (JsString t) h = Inr msgs"
      and c: "create \<lparr>model = js ''gpt-4o'', request_messages = msgs, max_tokens = 1000,
                    temperature = 7 / 10, presence_penalty = 1 / 10,
                    frequency_penalty = 1 / 10\<rparr>
            = Rejected (Error e)"
      and i: "\<not> includes_str e (js ''API key'')" "includes_str e (js ''quota'')"
    have d: "destructure (req_body req) = Some (JsString t, h)"
      using a(2,3) hist by (simp add: destructure_object)
    have m: "truthy (JsString t)" using a(4) by simp
    have k: "\<not> key_missing api_key" using a(5,6) by (simp add: key_missing_def)
    have "fst (try_block create (JsString t) h) = Inl (Error e)"
      using b c by (simp add: try_block_def completion_request_def)
    from handler_caught [OF post a(1) d m k this] i
    show "fst (handler create api_key session req) = Sent \<lparr>status = 429, res_message = js ''API quota exceeded'', res_usage = None\<rparr>"
      by (simp add: catch_block_def json_response_def)
  qed
  have c8: "session \<noteq> None \<and> req_body req = JsObject props
        \<and> map_of (rev props) (js ''message'') = Some (JsString t) \<and> t \<noteq> []
        \<and> api_key = Some k \<and> k \<noteq> [] \<and> fst (try_block create (JsString t) h) = Inl x
        \<and> (\<forall>e'. x = Error e' \<longrightarrow>
              \<not> includes_str e' (js ''API key'') \<and> \<not> includes_str e' (js ''quota'')) \<longrightarrow>
        fst (handler create api_key session req)
          = Sent \<lparr>status = 500, res_message = js ''Failed to get AI response. Please try again later.'', res_usage = None\<rparr>"
  proof (intro impI, elim conjE)
    assume a: "session \<noteq> None" "req_body req = JsObject props"
      "map_of (rev props) (js ''message'') = Some (JsString t)" "t \<noteq> []"
      "api_key = Some k" "k \<noteq> []"
      and b: "fst (try_block create (JsString t) h) = Inl x"
      and i: "\<forall>e'. x = Error e' \<longrightarrow>
              \<not> includes_str e' (js ''API key'') \<and> \<not> includes_str e' (js ''quota'')"
    have d: "destructure (req_body req) = Some (JsString t, h)"
      using a(2,3) hist by (simp add: destructure_object)
    have m: "truthy (JsString t)" using a(4) by simp
    have k: "\<not> key_missing api_key" using a(5,6) by (simp add: key_missing_def)
    from handler_caught [OF post a(1) d m k b] i
    show "fst (handler create api_key session req)
          = Sent \<lparr>status = 500, res_message = js ''Failed to get AI response. Please try again later.'', res_usage = None\<rparr>"
      by (cases x) (simp_all add: catch_block_def json_response_def)
  qed
  have c9: "session = None \<or> (req_body req \<noteq> JsNull \<and> req_body req \<noteq> JsUndefined) \<longrightarrow>
        (\<exists>r. fst (handler create api_key session req) = Sent r \<and> status r \<in> {200, 400, 401, 429, 500})"
  proof
    assume a: "session = None \<or> (req_body req \<noteq> JsNull \<and> req_body req \<noteq> JsUndefined)"
    have "\<exists>r. fst (handler create api_key session req) = Sent r"
    proof (cases "session = None")
      case True
      with post show ?thesis by (simp add: handler_def)
    next
      case False
      with a obtain m' h' where "destructure (req_body req) = Some (m', h')"
        using destructure_defined by blast
      with post False show ?thesis
        by (cases "try_block create m' h'"; cases "fst (try_block create m' h')")
           (auto simp: handler_def)
    qed
    then obtain r where r: "fst (handler create api_key session req) = Sent r" ..
    from handler_post_status [OF post r] r
    show "\<exists>r. fst (handler create api_key session req) = Sent r
            \<and> status r \<in> {200, 400, 401, 429, 500}"
      by blast
  qed
  from c1 c2 c3 c4 c5 c6 c7 c8 c9 show ?thesis
    by (intro conjI)
qed

lemma destructure_headache:
  "destructure (req_body (post_request headache_body))
     = Some (JsString (js ''I have a headache''), JsArray [])"
  by (simp add: destructure_def post_request_def headache_body_def js_def)

lemma build_messages_no_history:
  "build_messages m (JsArray []) = Inr [system_message, user_message m]"
  by (simp add: build_messages_def)

theorem handler_status_codes_witness:
  "handler (remote_answers (js ''Try resting.'')) (Some (js ''sk-test'')) (None :: unit option)
       (post_request headache_body)
     = (Sent \<lparr>status = 401, res_message = js ''Unauthorized'', res_usage = None\<rparr>, [GetServerSession])
   \<and> handler (remote_answers (js ''Try resting.'')) (Some (js ''sk-test'')) (Some ())
       (post_request (JsObject []))
     = (Sent \<lparr>status = 400, res_message = js ''Message is required'', res_usage = None\<rparr>, [GetServerSession])
   \<and> handler (remote_answers (js ''Try resting.'')) (Some (js ''sk-test'')) (Some ())
       (post_request (JsString (js ''I have a headache'')))
     = (Sent \<lparr>status = 400, res_message = js ''Message is required'', res_usage = None\<rparr>, [GetServerSession])
   \<and> handler (remote_answers (js ''Try resting.'')) None (Some ())
       (post_request headache_body)
     = (Sent \<lparr>status = 500, res_message = js ''OpenAI API key not configured'', res_usage = None\<rparr>, [GetServerSession])
   \<and> fst (handler (remote_answers (js ''Try resting.'')) (Some (js ''sk-test'')) (Some ())
            (post_request headache_body))
     = Sent \<lparr>status = 200, res_message = js ''Try resting.'', res_usage = None\<rparr>
   \<and> fst (handler (remote_rejects (Error (js ''401 Incorrect API key provided.'')))
            (Some (js ''sk-test'')) (Some ()) (post_request headache_body))
     = Sent \<lparr>status = 401, res_message = js ''Invalid OpenAI API key'', res_usage = None\<rparr>
   \<and> fst (handler (remote_rejects (Error (js ''429 You exceeded your current quota.'')))
            (Some (js ''sk-test'')) (Some ()) (post_request headache_body))
     = Sent \<lparr>status = 429, res_message = js ''API quota exceeded'', res_usage = None\<rparr>
   \<and> fst (handler (remote_rejects (Error (js ''Connection error.'')))
            (Some (js ''sk-test'')) (Some ()) (post_request headache_body))
     = Sent \<lparr>status = 500, res_message = js ''Failed to get AI response. Please try again later.'', res_usage = None\<rparr>"
proof -
  let ?t = "js ''I have a headache''"
  let ?m = "JsString ?t"
  let ?props = "[(js ''message'', ?m)]"
  let ?msgs = "[system_message, user_message ?m]"
  let ?key = "Some (js ''sk-test'')"
  have post: "req_method (post_request b) = js ''POST''" for b
    by (simp add: post_request_def)
  have hist: "JsArray [] = (case map_of (rev ?props) (js ''conversationHistory'') of
                              None \<Rightarrow> JsArray []
                            | Some v \<Rightarrow> if v = JsUndefined then JsArray [] else v)"
    by (simp add: js_def)
  have hist0: "JsArray [] = (case map_of (rev []) (js ''conversationHistory'') of
                              None \<Rightarrow> JsArray []
                            | Some v \<Rightarrow> if v = JsUndefined then JsArray [] else v)"
    by simp
  have body: "req_body (post_request headache_body) = JsObject ?props"
    "req_body (post_request (JsObject [])) = JsObject []"
    "req_body (post_request ?m) = ?m"
    by (simp_all add: post_request_def headache_body_def)
  have ne: "?t \<noteq> []" "js ''sk-test'' \<noteq> []" "js ''Try resting.'' \<noteq> []"
    by (simp_all add: js_def)
  have other: "fst (try_block (remote_rejects (Error (js ''Connection error.''))) ?m (JsArray []))
              = Inl (Error (js ''Connection error.''))"
    by (simp add: try_block_def build_messages_no_history remote_rejects_def)
  note hd = handler_status_codes [OF post [of headache_body] hist]
  have w1: "handler (remote_answers (js ''Try resting.'')) ?key (None :: unit option)
              (post_request headache_body)
            = (Sent \<lparr>status = 401, res_message = js ''Unauthorized'', res_usage = None\<rparr>, [GetServerSession])"
    by (rule hd [where session = "None :: unit option", THEN conjunct1, THEN mp]) simp
  have w2: "handler (remote_answers (js ''Try resting.'')) ?key (Some ())
              (post_request (JsObject []))
            = (Sent \<lparr>status = 400, res_message = js ''Message is required'', res_usage = None\<rparr>, [GetServerSession])"
    by (rule handler_status_codes [OF post [of "JsObject []"] hist0,
          where session = "Some ()", THEN conjunct2, THEN conjunct1, THEN mp])
       (simp add: body)
  have w3: "handler (remote_answers (js ''Try resting.'')) ?key (Some ())
              (post_request ?m)
            = (Sent \<lparr>status = 400, res_message = js ''Message is required'', res_usage = None\<rparr>, [GetServerSession])"
    by (rule handler_status_codes [OF post [of ?m] hist0,
          where session = "Some ()", THEN conjunct2, THEN conjunct2, THEN conjunct1, THEN mp])
       (simp add: body)
  have w4: "handler (remote_answers (js ''Try resting.'')) None (Some ())
              (post_request headache_body)
            = (Sent \<lparr>status = 500, res_message = js ''OpenAI API key not configured'', res_usage = None\<rparr>, [GetServerSession])"
    by (rule hd [where session = "Some ()" and t = ?t and api_key = None,
          THEN conjunct2, THEN conjunct2, THEN conjunct2, THEN conjunct1, THEN mp])
       (simp add: body ne)
  have w5: "fst (handler (remote_answers (js ''Try resting.'')) ?key (Some ())
              (post_request headache_body))
            = Sent \<lparr>status = 200, res_message = js ''Try resting.'', res_usage = None\<rparr>"
    by (rule hd [where session = "Some ()" and t = ?t
          and k = "js ''sk-test''" and msgs = ?msgs and others = "[]",
          THEN conjunct2, THEN conjunct2, THEN conjunct2, THEN conjunct2, THEN conjunct1, THEN mp])
       (simp add: body ne build_messages_no_history remote_answers_def)
  have w6: "fst (handler (remote_rejects (Error (js ''401 Incorrect API key provided.''))) ?key
              (Some ()) (post_request headache_body))
            = Sent \<lparr>status = 401, res_message = js ''Invalid OpenAI API key'', res_usage = None\<rparr>"
    by (rule hd [where session = "Some ()" and t = ?t
          and k = "js ''sk-test''" and msgs = ?msgs
          and e = "js ''401 Incorrect API key provided.''",
          THEN conjunct2, THEN conjunct2, THEN conjunct2, THEN conjunct2, THEN conjunct2, THEN conjunct1, THEN mp])
       (simp add: body ne build_messages_no_history remote_rejects_def sample_error_messages)
  have w7: "fst (handler (remote_rejects (Error (js ''429 You exceeded your current quota.''))) ?key
              (Some ()) (post_request headache_body))
            = Sent \<lparr>status = 429, res_message = js ''API quota exceeded'', res_usage = None\<rparr>"
    by (rule hd [where session = "Some ()" and t = ?t
          and k = "js ''sk-test''" and msgs = ?msgs
          and e = "js ''429 You exceeded your current quota.''",
          THEN conjunct2, THEN conjunct2, THEN conjunct2, THEN conjunct2, THEN conjunct2, THEN conjunct2, THEN conjunct1, THEN mp])
       (simp add: body ne build_messages_no_history remote_rejects_def sample_error_messages)
  have w8: "fst (handler (remote_rejects (Error (js ''Connection error.''))) ?key
              (Some ()) (post_request headache_body))
            = Sent \<lparr>status = 500, res_message = js ''Failed to get AI response. Please try again later.'', res_usage = None\<rparr>"
    by (rule hd [where session = "Some ()" and t = ?t
          and k = "js ''sk-test''" and x = "Error (js ''Connection error.'')",
          THEN conjunct2, THEN conjunct2, THEN conjunct2, THEN conjunct2, THEN conjunct2, THEN conjunct2, THEN conjunct2, THEN conjunct1, THEN mp])
       (simp add: body ne other sample_error_messages)
  from w1 w2 w3 w4 w5 w6 w7 w8 show ?thesis
    by (intro conjI)
qed

text \<open>
  C9. A request whose method is not POST is answered 405 \<open>Method not allowed\<close> at once:
  the session is not looked up, the body is not read, and no remote call is made.
\<close>

theorem non_post_is_rejected_first:
  assumes "req_method req \<noteq> js ''POST''"
  shows "handler create api_key session req
           = (Sent \<lparr>status = 405, res_message = js ''Method not allowed'', res_usage = None\<rparr>, [])"
  using assms by (simp add: handler_def json_response_def)

theorem non_post_is_rejected_first_witness:
  "handler (remote_answers (js ''Try resting.'')) (Some (js ''sk-test'')) (None :: unit option)
     \<lparr>req_method = js ''GET'', req_body = headache_body\<rparr>
     = (Sent \<lparr>status = 405, res_message = js ''Method not allowed'', res_usage = None\<rparr>, [])"
proof -
  have g: "req_method \<lparr>req_method = js ''GET'', req_body = headache_body\<rparr> \<noteq> js ''POST''"
    by (simp add: js_def)
  show ?thesis
    by (rule non_post_is_rejected_first [OF g])
qed

lemma destructure_without_history:
  assumes "map_of (rev props) (js ''conversationHistory'') = None"
      and "map_of (rev props) (js ''message'') = Some m"
  shows "destructure (JsObject props) = Some (m, JsArray [])"
  using assms by (simp add: destructure_def)

lemma remote_calls_of_try_block:
  assumes "build_messages m h = Inr msgs"
  shows "try_block create m h
           = (fst (try_block create m h), [CreateCompletion (completion_request msgs)])"
  using try_block_calls [OF assms, of create]
  by (cases "try_block create m h") simp

text \<open>
  C10. An authenticated POST request whose body has a (truthy) message and no
  \<open>conversationHistory\<close> field is not refused for that: the history is the empty list, the
  prompt is the system message with the fixed instruction followed by the user message,
  it is what the one remote call is made with (right after the session lookup) when the
  API key is configured, and the answer is never a 400.
\<close>

theorem missing_history_defaults_to_empty:
  assumes "req_method req = js ''POST''" and "session \<noteq> None"
      and "req_body req = JsObject props"
      and "map_of (rev props) (js ''conversationHistory'') = None"
      and "map_of (rev props) (js ''message'') = Some m" and "truthy m"
  shows "destructure (req_body req) = Some (m, JsArray [])
       \<and> build_messages m (JsArray [])
           = Inr [\<lparr>prompt_role = JsString (js ''system''),
                    prompt_content = JsString MEDICAL_SYSTEM_PROMPT\<rparr>,
                  \<lparr>prompt_role = JsString (js ''user''), prompt_content = m\<rparr>]
       \<and> (api_key = Some k \<and> k \<noteq> [] \<longrightarrow>
            remote_calls (snd (handler create api_key session req))
              = [\<lparr>model = js ''gpt-4o'',
                 request_messages =
                   [\<lparr>prompt_role = JsString (js ''system''),
                    prompt_content = JsString MEDICAL_SYSTEM_PROMPT\<rparr>,
                    \<lparr>prompt_role = JsString (js ''user''), prompt_content = m\<rparr>],
                 max_tokens = 1000, temperature = 7 / 10, presence_penalty = 1 / 10,
                 frequency_penalty = 1 / 10\<rparr>]
            \<and> take 2 (snd (handler create api_key session req))
              = [GetServerSession,
                 CreateCompletion
                   \<lparr>model = js ''gpt-4o'',
                 request_messages =
                   [\<lparr>prompt_role = JsString (js ''system''),
                    prompt_content = JsString MEDICAL_SYSTEM_PROMPT\<rparr>,
                    \<lparr>prompt_role = JsString (js ''user''), prompt_content = m\<rparr>],
                 max_tokens = 1000, temperature = 7 / 10, presence_penalty = 1 / 10,
                 frequency_penalty = 1 / 10\<rparr>])
       \<and> (\<exists>r. fst (handler create api_key session req) = Sent r \<and> status r \<noteq> 400)"
proof -
  let ?request = "\<lparr>model = js ''gpt-4o'',
                 request_messages =
                   [\<lparr>prompt_role = JsString (js ''system''),
                    prompt_content = JsString MEDICAL_SYSTEM_PROMPT\<rparr>,
                    \<lparr>prompt_role = JsString (js ''user''), prompt_content = m\<rparr>],
                 max_tokens = 1000, temperature = 7 / 10, presence_penalty = 1 / 10,
                 frequency_penalty = 1 / 10\<rparr>"
  have d: "destructure (req_body req) = Some (m, JsArray [])"
    using assms(3-5) by (simp add: destructure_without_history)
  have b: "build_messages m (JsArray []) = Inr [system_message, user_message m]"
    by (rule build_messages_no_history)
  have r: "completion_request [system_message, user_message m] = ?request"
    by (simp add: completion_request_def system_message_def user_message_def)
  have b': "build_messages m (JsArray [])
           = Inr [\<lparr>prompt_role = JsString (js ''system''),
                    prompt_content = JsString MEDICAL_SYSTEM_PROMPT\<rparr>,
                  \<lparr>prompt_role = JsString (js ''user''), prompt_content = m\<rparr>]"
    using b by (simp add: system_message_def user_message_def)
  let ?t = "try_block create m (JsArray [])"
  have t: "?t = (fst ?t, [CreateCompletion ?request])"
    using remote_calls_of_try_block [OF b, of create] r by simp
  have calls: "remote_calls (snd (handler create api_key session req)) = [?request]
               \<and> take 2 (snd (handler create api_key session req))
                   = [GetServerSession, CreateCompletion ?request]"
    if k: "\<not> key_missing api_key"
  proof (cases "fst ?t")
    case (Inl e)
    with t have "?t = (Inl e, [CreateCompletion ?request])"
      by simp
    then show ?thesis
      by (simp add: handler_past_checks [OF assms(1,2) d assms(6) k])
  next
    case (Inr r)
    with t have "?t = (Inr r, [CreateCompletion ?request])"
      by simp
    then show ?thesis
      by (simp add: handler_past_checks [OF assms(1,2) d assms(6) k])
  qed
  have calls': "api_key = Some k \<and> k \<noteq> [] \<longrightarrow>
            remote_calls (snd (handler create api_key session req)) = [?request]
            \<and> take 2 (snd (handler create api_key session req))
              = [GetServerSession, CreateCompletion ?request]"
  proof
    assume "api_key = Some k \<and> k \<noteq> []"
    then have "\<not> key_missing api_key" by (simp add: key_missing_def)
    then show "remote_calls (snd (handler create api_key session req)) = [?request]
            \<and> take 2 (snd (handler create api_key session req))
              = [GetServerSession, CreateCompletion ?request]"
      by (rule calls)
  qed
  have answer: "\<exists>r. fst (handler create api_key session req) = Sent r \<and> status r \<noteq> 400"
  proof (cases "key_missing api_key")
    case True
    with assms(1,2,6) d show ?thesis
      by (auto simp: handler_def json_response_def)
  next
    case k: False
    show ?thesis
    proof (cases "fst ?t")
      case (Inl e)
      from handler_caught [OF assms(1,2) d assms(6) k Inl] catch_block_status [of e]
      show ?thesis by auto
    next
      case (Inr r)
      from handler_success [OF assms(1,2) d assms(6) k Inr] try_block_Inr [OF Inr]
      show ?thesis by auto
    qed
  qed
  from d b' calls' answer show ?thesis
    by (intro conjI)
qed

theorem missing_history_defaults_to_empty_witness:
  "remote_calls
     (snd (handler (remote_answers (js ''Try resting.'')) (Some (js ''sk-test'')) (Some ())
             (post_request headache_body)))
     = [\<lparr>model = js ''gpt-4o'',
                 request_messages =
                   [\<lparr>prompt_role = JsString (js ''system''),
                    prompt_content = JsString MEDICAL_SYSTEM_PROMPT\<rparr>,
                    \<lparr>prompt_role = JsString (js ''user''), prompt_content = JsString (js ''I have a headache'')\<rparr>],
                 max_tokens = 1000, temperature = 7 / 10, presence_penalty = 1 / 10,
                 frequency_penalty = 1 / 10\<rparr>]
   \<and> snd (handler (remote_answers (js ''Try resting.'')) (Some (js ''sk-test'')) (Some ())
            (post_request headache_body))
     = [GetServerSession,
        CreateCompletion
          \<lparr>model = js ''gpt-4o'',
                 request_messages =
                   [\<lparr>prompt_role = JsString (js ''system''),
                    prompt_content = JsString MEDICAL_SYSTEM_PROMPT\<rparr>,
                    \<lparr>prompt_role = JsString (js ''user''), prompt_content = JsString (js ''I have a headache'')\<rparr>],
                 max_tokens = 1000, temperature = 7 / 10, presence_penalty = 1 / 10,
                 frequency_penalty = 1 / 10\<rparr>]
   \<and> fst (handler (remote_answers (js ''Try resting.'')) (Some (js ''sk-test'')) (Some ())
            (post_request headache_body))
     = Sent \<lparr>status = 200, res_message = js ''Try resting.'', res_usage = None\<rparr>"
proof -
  let ?m = "JsString (js ''I have a headache'')"
  let ?handled = "handler (remote_answers (js ''Try resting.'')) (Some (js ''sk-test'')) (Some ())
                    (post_request headache_body)"
  have p: "req_method (post_request headache_body) = js ''POST''"
    by (simp add: post_request_def)
  have s: "Some () \<noteq> None" by simp
  have o: "req_body (post_request headache_body)
             = JsObject [(js ''message'', JsString (js ''I have a headache''))]"
    by (simp add: post_request_def headache_body_def)
  have h: "map_of (rev [(js ''message'', ?m)]) (js ''conversationHistory'') = None"
    by (simp add: js_def)
  have g: "map_of (rev [(js ''message'', ?m)]) (js ''message'') = Some ?m"
    by simp
  have m: "truthy ?m"
    by (simp add: js_def)
  have k: "\<not> key_missing (Some (js ''sk-test''))" "js ''sk-test'' \<noteq> []"
    by (simp_all add: key_missing_def js_def)
  note w = missing_history_defaults_to_empty [OF p s o h g m,
      where api_key = "Some (js ''sk-test'')" and k = "js ''sk-test''"
        and create = "remote_answers (js ''Try resting.'')"]
  note c = w [THEN conjunct2, THEN conjunct2, THEN conjunct1, THEN mp]
  have c': "remote_calls (snd ?handled)
              = [\<lparr>model = js ''gpt-4o'',
                 request_messages =
                   [\<lparr>prompt_role = JsString (js ''system''),
                    prompt_content = JsString MEDICAL_SYSTEM_PROMPT\<rparr>,
                    \<lparr>prompt_role = JsString (js ''user''), prompt_content = JsString (js ''I have a headache'')\<rparr>],
                 max_tokens = 1000, temperature = 7 / 10, presence_penalty = 1 / 10,
                 frequency_penalty = 1 / 10\<rparr>]
            \<and> take 2 (snd ?handled)
              = [GetServerSession,
                 CreateCompletion
                   \<lparr>model = js ''gpt-4o'',
                 request_messages =
                   [\<lparr>prompt_role = JsString (js ''system''),
                    prompt_content = JsString MEDICAL_SYSTEM_PROMPT\<rparr>,
                    \<lparr>prompt_role = JsString (js ''user''), prompt_content = JsString (js ''I have a headache'')\<rparr>],
                 max_tokens = 1000, temperature = 7 / 10, presence_penalty = 1 / 10,
                 frequency_penalty = 1 / 10\<rparr>]"
    by (rule c) (simp add: k)
  from w have d: "destructure (req_body (post_request headache_body)) = Some (?m, JsArray [])"
    by simp
  have t: "try_block (remote_answers (js ''Try resting.'')) ?m (JsArray [])
             = (Inr \<lparr>status = 200, res_message = js ''Try resting.'', res_usage = None\<rparr>,
                [CreateCompletion (completion_request [system_message, user_message ?m])])"
    by (simp add: try_block_def build_messages_no_history remote_answers_def aiResponse_def js_def)
  have len: "length (snd ?handled) = 2"
    by (simp add: handler_past_checks [OF p s d m k(1)] t)
  have fst: "fst ?handled
               = Sent \<lparr>status = 200, res_message = js ''Try resting.'', res_usage = None\<rparr>"
    by (simp add: handler_past_checks [OF p s d m k(1)] t)
  from c' len fst show ?thesis
    by simp
qed

end
